theory Spec2Isabelle
  imports Complex_Main
begin

section \<open>Geometry primitives\<close>

text \<open>
  The voxelizer computes in \<open>real_type\<close>, a binary floating-point type. The embedding uses
  exact real numbers instead: every comparison, sum and product below is the mathematical one,
  so rounding is not modelled. The two places where IEEE arithmetic does something that the
  reals cannot express by themselves (a division of zero by zero, which produces a NaN that
  fails every comparison) are written out as \<open>option\<close> values where they decide a branch.
\<close>

text \<open>
  Modelled from the spec: the vectors and their operations of the vector header, which is not
  among the sources (section 2, geometry primitives; section 3, \<open>Vec3\<close>): a triple of
  reals with the usual sum, difference, scaling, dot product, cross product, length and
  componentwise absolute value, and a pair of reals for texture coordinates.
\<close>

datatype Vec3 = Vec3 (vx: real) (vy: real) (vz: real)

datatype Vec2 = Vec2 (ux: real) (uy: real)

text \<open>
  \<open>v[axis]\<close>. The source indexes an array of three components and every caller passes an
  axis in \<open>{0, 1, 2}\<close>. For a larger index, which the source never uses, the model reads the
  third component.
\<close>

definition vec_at :: "Vec3 \<Rightarrow> nat \<Rightarrow> real" where
  "vec_at p a = (if a = 0 then vx p else if a = 1 then vy p else vz p)"

definition vadd :: "Vec3 \<Rightarrow> Vec3 \<Rightarrow> Vec3" where
  "vadd a b = Vec3 (vx a + vx b) (vy a + vy b) (vz a + vz b)"

definition vsub :: "Vec3 \<Rightarrow> Vec3 \<Rightarrow> Vec3" where
  "vsub a b = Vec3 (vx a - vx b) (vy a - vy b) (vz a - vz b)"

definition smul :: "real \<Rightarrow> Vec3 \<Rightarrow> Vec3" where
  "smul c a = Vec3 (c * vx a) (c * vy a) (c * vz a)"

definition dot :: "Vec3 \<Rightarrow> Vec3 \<Rightarrow> real" where
  "dot a b = vx a * vx b + vy a * vy b + vz a * vz b"

definition cross :: "Vec3 \<Rightarrow> Vec3 \<Rightarrow> Vec3" where
  "cross a b = Vec3 (vy a * vz b - vz a * vy b) (vz a * vx b - vx a * vz b) (vx a * vy b - vy a * vx b)"

definition length3 :: "Vec3 \<Rightarrow> real" where
  "length3 a = sqrt (dot a a)"

definition abs3 :: "Vec3 \<Rightarrow> Vec3" where
  "abs3 a = Vec3 (abs (vx a)) (abs (vy a)) (abs (vz a))"

definition vadd2 :: "Vec2 \<Rightarrow> Vec2 \<Rightarrow> Vec2" where
  "vadd2 a b = Vec2 (ux a + ux b) (uy a + uy b)"

definition smul2 :: "real \<Rightarrow> Vec2 \<Rightarrow> Vec2" where
  "smul2 c a = Vec2 (c * ux a) (c * uy a)"

text \<open>
  Modelled from the spec: \<open>mix(a, b, t)\<close> of the vector header, which is not among the
  sources. Section 4.2 and the UV-consistency property give it as \<open>(1 - t) * a + t * b\<close>.
\<close>

definition mix3 :: "Vec3 \<Rightarrow> Vec3 \<Rightarrow> real \<Rightarrow> Vec3" where
  "mix3 a b t = vadd (smul (1 - t) a) (smul t b)"

definition mix2 :: "Vec2 \<Rightarrow> Vec2 \<Rightarrow> real \<Rightarrow> Vec2" where
  "mix2 a b t = vadd2 (smul2 (1 - t) a) (smul2 t b)"

subsection \<open>Triangles\<close>

text \<open>
  Modelled from the spec: \<open>TexturedTriangle\<close> of the triangle header, which is not among the
  sources: three vertices in voxel space and three UVs (section 3), read by index through
  \<open>vertex(i)\<close> and \<open>texture(i)\<close>.
\<close>

datatype TexturedTriangle =
  TexturedTriangle (v0: Vec3) (v1: Vec3) (v2: Vec3) (t0: Vec2) (t1: Vec2) (t2: Vec2)

definition vertex :: "TexturedTriangle \<Rightarrow> nat \<Rightarrow> Vec3" where
  "vertex t i = (if i = 0 then v0 t else if i = 1 then v1 t else v2 t)"

definition texture :: "TexturedTriangle \<Rightarrow> nat \<Rightarrow> Vec2" where
  "texture t i = (if i = 0 then t0 t else if i = 1 then t1 t else t2 t)"

text \<open>
  Modelled from the spec: \<open>normal()\<close> and \<open>area()\<close> of the triangle header, which is
  not among the sources. The normal is the cross product of two edges leaving vertex 0 and the
  area is half its length (the area of the triangle in voxel-space units, section 4.4).
\<close>

definition normal :: "TexturedTriangle \<Rightarrow> Vec3" where
  "normal t = cross (vsub (v1 t) (v0 t)) (vsub (v2 t) (v0 t))"

definition area :: "TexturedTriangle \<Rightarrow> real" where
  "area t = length3 (normal t) / 2"

section \<open>Triangle-plane splitter (voxelization.cpp)\<close>

definition EPSILON :: real where
  "EPSILON = 1 / 2 ^ 16"

definition isZero :: "real \<Rightarrow> bool" where
  "isZero x = (\<bar>x\<bar> < EPSILON)"

text \<open>\<open>eq(x, plane)\<close> of the source, under another name.\<close>

definition eq_plane :: "real \<Rightarrow> nat \<Rightarrow> bool" where
  "eq_plane x plane = isZero (x - real plane)"

definition intersect_ray_axisPlane :: "Vec3 \<Rightarrow> Vec3 \<Rightarrow> nat \<Rightarrow> nat \<Rightarrow> real" where
  "intersect_ray_axisPlane org dir axis plane =
     (let d = - vec_at dir axis
      in if isZero d then 0 else (vec_at org axis - real plane) / d)"

datatype DiscardMode = NONE | DISCARD_LO | DISCARD_HI

text \<open>
  \<open>splitTriangle\<close> writes into two vectors \<open>outLo\<close> and \<open>outHi\<close> through the local helper
  \<open>pushLoIfTrueElseHi\<close>. The per-voxel clipper passes the same vector for both, so the model
  returns the sequence of pushes in program order, each with the flag that selects the
  vector: \<open>(t, True)\<close> is a \<open>push_back\<close> on \<open>outLo\<close> and \<open>(t, False)\<close> one on \<open>outHi\<close>.
  A push that the discard mode suppresses is absent from the sequence.
\<close>

type_synonym Push = "TexturedTriangle \<times> bool"

definition pushLoIfTrueElseHi :: "DiscardMode \<Rightarrow> TexturedTriangle \<Rightarrow> bool \<Rightarrow> Push list" where
  "pushLoIfTrueElseHi discard t lo =
     (case discard of
        NONE \<Rightarrow> [(t, lo)]
      | DISCARD_LO \<Rightarrow> (if \<not> lo then [(t, False)] else [])
      | DISCARD_HI \<Rightarrow> (if lo then [(t, True)] else []))"

text \<open>The vectors after a sequence of pushes: distinct vectors, and one vector for both.\<close>

definition outLo_after :: "Push list \<Rightarrow> TexturedTriangle list \<Rightarrow> TexturedTriangle list" where
  "outLo_after ps outLo = outLo @ map fst (filter snd ps)"

definition outHi_after :: "Push list \<Rightarrow> TexturedTriangle list \<Rightarrow> TexturedTriangle list" where
  "outHi_after ps outHi = outHi @ map fst (filter (\<lambda>p. \<not> snd p) ps)"

definition aliased_after :: "Push list \<Rightarrow> TexturedTriangle list \<Rightarrow> TexturedTriangle list" where
  "aliased_after ps out = out @ map fst ps"

definition planarVertices :: "nat \<Rightarrow> nat \<Rightarrow> TexturedTriangle \<Rightarrow> nat \<Rightarrow> bool" where
  "planarVertices axis plane t i = eq_plane (vec_at (vertex t i) axis) plane"

definition planarSum :: "nat \<Rightarrow> nat \<Rightarrow> TexturedTriangle \<Rightarrow> nat" where
  "planarSum axis plane t =
     of_bool (planarVertices axis plane t 0) + of_bool (planarVertices axis plane t 1)
       + of_bool (planarVertices axis plane t 2)"

definition loVertices :: "nat \<Rightarrow> nat \<Rightarrow> TexturedTriangle \<Rightarrow> nat \<Rightarrow> bool" where
  "loVertices axis plane t i = (vec_at (vertex t i) axis \<le> real plane)"

definition loSum :: "nat \<Rightarrow> nat \<Rightarrow> TexturedTriangle \<Rightarrow> nat" where
  "loSum axis plane t =
     of_bool (loVertices axis plane t 0) + of_bool (loVertices axis plane t 1)
       + of_bool (loVertices axis plane t 2)"

text \<open>The block under \<open>planarSum == 1\<close>: one vertex lies on the splitting plane.\<close>

definition splitOnePlanar :: "DiscardMode \<Rightarrow> nat \<Rightarrow> nat \<Rightarrow> TexturedTriangle \<Rightarrow> Push list" where
  "splitOnePlanar discard axis plane t =
     (let planarIndex = (if planarVertices axis plane t 0 then 0
                         else if planarVertices axis plane t 1 then 1 else 2);
          nonPlanarIndices0 = (planarIndex + 1) mod 3;
          nonPlanarIndices1 = (planarIndex + 2) mod 3;
          nonPlanarLoSum = (of_bool (loVertices axis plane t nonPlanarIndices0)
                            + of_bool (loVertices axis plane t nonPlanarIndices1) :: nat)
      in if nonPlanarLoSum \<noteq> 1
         then pushLoIfTrueElseHi discard t (nonPlanarLoSum = 2)
         else
           (let planarVertex = vertex t planarIndex;
                planarTexture = texture t planarIndex;
                nonPlanarVertices0 = vertex t nonPlanarIndices0;
                nonPlanarVertices1 = vertex t nonPlanarIndices1;
                nonPlanarTextures0 = texture t nonPlanarIndices0;
                nonPlanarTextures1 = texture t nonPlanarIndices1;
                nonPlanarEdge = vsub nonPlanarVertices1 nonPlanarVertices0;
                intersection = intersect_ray_axisPlane nonPlanarVertices0 nonPlanarEdge axis plane;
                geoIntersection = mix3 nonPlanarVertices0 nonPlanarVertices1 intersection;
                texIntersection = mix2 nonPlanarTextures0 nonPlanarTextures1 intersection;
                triangles0 = TexturedTriangle planarVertex nonPlanarVertices0 geoIntersection
                               planarTexture nonPlanarTextures0 texIntersection;
                triangles1 = TexturedTriangle planarVertex geoIntersection nonPlanarVertices1
                               planarTexture texIntersection nonPlanarTextures1;
                isFirstTriangleLo = loVertices axis plane t nonPlanarIndices0
            in pushLoIfTrueElseHi discard triangles0 isFirstTriangleLo
               @ pushLoIfTrueElseHi discard triangles1 (\<not> isFirstTriangleLo)))"

text \<open>The final \<open>else\<close> block: no vertex is planar and the plane cuts the triangle.\<close>

definition splitRegular :: "DiscardMode \<Rightarrow> nat \<Rightarrow> nat \<Rightarrow> TexturedTriangle \<Rightarrow> Push list" where
  "splitRegular discard axis plane t =
     (let isIsolatedLo = (loSum axis plane t = 1);
          isolatedIndex =
            (if isIsolatedLo
             then (if loVertices axis plane t 0 then 0 else if loVertices axis plane t 1 then 1 else 2)
             else (if \<not> loVertices axis plane t 0 then 0
                   else if \<not> loVertices axis plane t 1 then 1 else 2));
          otherIndices0 = (isolatedIndex + 1) mod 3;
          otherIndices1 = (isolatedIndex + 2) mod 3;
          isolatedVertex = vertex t isolatedIndex;
          isolatedTexture = texture t isolatedIndex;
          otherVertices0 = vertex t otherIndices0;
          otherVertices1 = vertex t otherIndices1;
          otherTextures0 = texture t otherIndices0;
          otherTextures1 = texture t otherIndices1;
          edgesToOtherVertices0 = vsub (vertex t otherIndices0) isolatedVertex;
          edgesToOtherVertices1 = vsub (vertex t otherIndices1) isolatedVertex;
          intersections0 = intersect_ray_axisPlane isolatedVertex edgesToOtherVertices0 axis plane;
          intersections1 = intersect_ray_axisPlane isolatedVertex edgesToOtherVertices1 axis plane;
          geoIsectPoints0 = mix3 isolatedVertex otherVertices0 intersections0;
          geoIsectPoints1 = mix3 isolatedVertex otherVertices1 intersections1;
          texIsectPoints0 = mix2 isolatedTexture otherTextures0 intersections0;
          texIsectPoints1 = mix2 isolatedTexture otherTextures1 intersections1;
          isolatedTriangle = TexturedTriangle isolatedVertex geoIsectPoints0 geoIsectPoints1
                               isolatedTexture texIsectPoints0 texIsectPoints1;
          otherTriangles0 = TexturedTriangle geoIsectPoints0 otherVertices0 otherVertices1
                              texIsectPoints0 otherTextures0 otherTextures1;
          otherTriangles1 = TexturedTriangle geoIsectPoints0 geoIsectPoints1 otherVertices1
                              texIsectPoints0 texIsectPoints1 otherTextures1
      in pushLoIfTrueElseHi discard isolatedTriangle isIsolatedLo
         @ pushLoIfTrueElseHi discard otherTriangles0 (\<not> isIsolatedLo)
         @ pushLoIfTrueElseHi discard otherTriangles1 (\<not> isIsolatedLo))"

definition splitTriangle :: "DiscardMode \<Rightarrow> nat \<Rightarrow> nat \<Rightarrow> TexturedTriangle \<Rightarrow> Push list" where
  "splitTriangle discard axis plane t =
     (if planarSum axis plane t = 3 then pushLoIfTrueElseHi discard t True
      else if loSum axis plane t = 0 then pushLoIfTrueElseHi discard t False
      else if loSum axis plane t = 3 then pushLoIfTrueElseHi discard t True
      else if planarSum axis plane t = 2 then
        (let nonPlanarIndex = (if \<not> planarVertices axis plane t 0 then 0
                               else if \<not> planarVertices axis plane t 1 then 1 else 2);
             isNonPlanarLo = (vec_at (vertex t nonPlanarIndex) axis \<le> real plane)
         in pushLoIfTrueElseHi discard t isNonPlanarLo)
      else if planarSum axis plane t = 1 then splitOnePlanar discard axis plane t
      else splitRegular discard axis plane t)"






section \<open>The cut in single precision\<close>

text \<open>
  The definitions above compute the cut in real numbers. The source computes it in
  \<open>real_type\<close>, the single-precision binary floating-point type: 24 significant bits,
  exponents from \<open>-126\<close> to 127, every operation rounded to the nearest representable number
  and a tie to the one with an even last bit. The following definitions repeat the arithmetic
  of the cut with that rounding after every operation. Coordinates are taken to be
  representable numbers, as they are in the source; an overflow to infinity is not modelled,
  the magnitudes of a voxel grid stay far below it.

  \<open>round_ties_even\<close> rounds a real number to the nearest integer, a tie to the even one.
  \<open>float_exponent\<close> finds the binade of a number: the largest \<open>e\<close> in \<open>-126 .. 127\<close>
  with \<open>2 ^ e \<le> |x|\<close>, or \<open>-126\<close> for the numbers below the normal range. \<open>round32\<close>
  rounds to the nearest multiple of the unit in the last place of that binade.
\<close>

definition round_ties_even :: "real \<Rightarrow> int" where
  "round_ties_even x =
     (let f = \<lfloor>x\<rfloor>; d = x - of_int f
      in if d < 1 / 2 then f else if 1 / 2 < d then f + 1 else if even f then f else f + 1)"

fun float_exponent_from :: "nat \<Rightarrow> real \<Rightarrow> int" where
  "float_exponent_from 0 x = - 126"
| "float_exponent_from (Suc n) x =
     (if 2 powi (int n - 125) \<le> x then int n - 125 else float_exponent_from n x)"

definition float_exponent :: "real \<Rightarrow> int" where
  "float_exponent x = float_exponent_from 253 \<bar>x\<bar>"

definition round32 :: "real \<Rightarrow> real" where
  "round32 x =
     (let ulp = 2 powi (float_exponent x - 23)
      in of_int (round_ties_even (x / ulp)) * ulp)"

text \<open>
  Modelled from the spec: \<open>mix(a, b, t)\<close> in single precision. The vector header is not among
  the sources and section 4.2 says only that positions are linearly mixed by \<open>t\<close>, so both
  usual ways of writing the interpolation are modelled: \<open>(1 - t) * a + t * b\<close> and
  \<open>a + t * (b - a)\<close>, each operation rounded.
\<close>

datatype MixOrder = WEIGHTED | OFFSET

definition mix_f32 :: "MixOrder \<Rightarrow> real \<Rightarrow> real \<Rightarrow> real \<Rightarrow> real" where
  "mix_f32 order a b t =
     (case order of
        WEIGHTED \<Rightarrow> round32 (round32 (round32 (1 - t) * a) + round32 (t * b))
      | OFFSET \<Rightarrow> round32 (a + round32 (t * round32 (b - a))))"

definition mix3_f32 :: "MixOrder \<Rightarrow> Vec3 \<Rightarrow> Vec3 \<Rightarrow> real \<Rightarrow> Vec3" where
  "mix3_f32 order a b t =
     Vec3 (mix_f32 order (vx a) (vx b) t) (mix_f32 order (vy a) (vy b) t)
          (mix_f32 order (vz a) (vz b) t)"

definition mix2_f32 :: "MixOrder \<Rightarrow> Vec2 \<Rightarrow> Vec2 \<Rightarrow> real \<Rightarrow> Vec2" where
  "mix2_f32 order a b t =
     Vec2 (mix_f32 order (ux a) (ux b) t) (mix_f32 order (uy a) (uy b) t)"

definition vsub_f32 :: "Vec3 \<Rightarrow> Vec3 \<Rightarrow> Vec3" where
  "vsub_f32 a b = Vec3 (round32 (vx a - vx b)) (round32 (vy a - vy b)) (round32 (vz a - vz b))"

text \<open>
  \<open>intersect_ray_axisPlane\<close> in single precision: the conversion \<open>real_type(plane)\<close>, the
  difference and the quotient are rounded; the negation is exact.
\<close>

definition intersect_ray_axisPlane_f32 :: "Vec3 \<Rightarrow> Vec3 \<Rightarrow> nat \<Rightarrow> nat \<Rightarrow> real" where
  "intersect_ray_axisPlane_f32 org dir axis plane =
     (let d = - vec_at dir axis
      in if isZero d then 0
         else round32 (round32 (vec_at org axis - round32 (real plane)) / d))"

text \<open>
  The two cutting blocks and \<open>splitTriangle\<close> with the single-precision arithmetic. The
  classification of the vertices is the one of the definitions above: it only compares.
\<close>

definition splitOnePlanar_f32 ::
  "MixOrder \<Rightarrow> DiscardMode \<Rightarrow> nat \<Rightarrow> nat \<Rightarrow> TexturedTriangle \<Rightarrow> Push list" where
  "splitOnePlanar_f32 order discard axis plane t =
     (let planarIndex = (if planarVertices axis plane t 0 then 0
                         else if planarVertices axis plane t 1 then 1 else 2);
          nonPlanarIndices0 = (planarIndex + 1) mod 3;
          nonPlanarIndices1 = (planarIndex + 2) mod 3;
          nonPlanarLoSum = (of_bool (loVertices axis plane t nonPlanarIndices0)
                            + of_bool (loVertices axis plane t nonPlanarIndices1) :: nat)
      in if nonPlanarLoSum \<noteq> 1
         then pushLoIfTrueElseHi discard t (nonPlanarLoSum = 2)
         else
           (let planarVertex = vertex t planarIndex;
                planarTexture = texture t planarIndex;
                nonPlanarVertices0 = vertex t nonPlanarIndices0;
                nonPlanarVertices1 = vertex t nonPlanarIndices1;
                nonPlanarTextures0 = texture t nonPlanarIndices0;
                nonPlanarTextures1 = texture t nonPlanarIndices1;
                nonPlanarEdge = vsub_f32 nonPlanarVertices1 nonPlanarVertices0;
                intersection =
                  intersect_ray_axisPlane_f32 nonPlanarVertices0 nonPlanarEdge axis plane;
                geoIntersection = mix3_f32 order nonPlanarVertices0 nonPlanarVertices1 intersection;
                texIntersection = mix2_f32 order nonPlanarTextures0 nonPlanarTextures1 intersection;
                triangles0 = TexturedTriangle planarVertex nonPlanarVertices0 geoIntersection
                               planarTexture nonPlanarTextures0 texIntersection;
                triangles1 = TexturedTriangle planarVertex geoIntersection nonPlanarVertices1
                               planarTexture texIntersection nonPlanarTextures1;
                isFirstTriangleLo = loVertices axis plane t nonPlanarIndices0
            in pushLoIfTrueElseHi discard triangles0 isFirstTriangleLo
               @ pushLoIfTrueElseHi discard triangles1 (\<not> isFirstTriangleLo)))"

definition splitRegular_f32 ::
  "MixOrder \<Rightarrow> DiscardMode \<Rightarrow> nat \<Rightarrow> nat \<Rightarrow> TexturedTriangle \<Rightarrow> Push list" where
  "splitRegular_f32 order discard axis plane t =
     (let isIsolatedLo = (loSum axis plane t = 1);
          isolatedIndex =
            (if isIsolatedLo
             then (if loVertices axis plane t 0 then 0 else if loVertices axis plane t 1 then 1 else 2)
             else (if \<not> loVertices axis plane t 0 then 0
                   else if \<not> loVertices axis plane t 1 then 1 else 2));
          otherIndices0 = (isolatedIndex + 1) mod 3;
          otherIndices1 = (isolatedIndex + 2) mod 3;
          isolatedVertex = vertex t isolatedIndex;
          isolatedTexture = texture t isolatedIndex;
          otherVertices0 = vertex t otherIndices0;
          otherVertices1 = vertex t otherIndices1;
          otherTextures0 = texture t otherIndices0;
          otherTextures1 = texture t otherIndices1;
          edgesToOtherVertices0 = vsub_f32 (vertex t otherIndices0) isolatedVertex;
          edgesToOtherVertices1 = vsub_f32 (vertex t otherIndices1) isolatedVertex;
          intersections0 =
            intersect_ray_axisPlane_f32 isolatedVertex edgesToOtherVertices0 axis plane;
          intersections1 =
            intersect_ray_axisPlane_f32 isolatedVertex edgesToOtherVertices1 axis plane;
          geoIsectPoints0 = mix3_f32 order isolatedVertex otherVertices0 intersections0;
          geoIsectPoints1 = mix3_f32 order isolatedVertex otherVertices1 intersections1;
          texIsectPoints0 = mix2_f32 order isolatedTexture otherTextures0 intersections0;
          texIsectPoints1 = mix2_f32 order isolatedTexture otherTextures1 intersections1;
          isolatedTriangle = TexturedTriangle isolatedVertex geoIsectPoints0 geoIsectPoints1
                               isolatedTexture texIsectPoints0 texIsectPoints1;
          otherTriangles0 = TexturedTriangle geoIsectPoints0 otherVertices0 otherVertices1
                              texIsectPoints0 otherTextures0 otherTextures1;
          otherTriangles1 = TexturedTriangle geoIsectPoints0 geoIsectPoints1 otherVertices1
                              texIsectPoints0 texIsectPoints1 otherTextures1
      in pushLoIfTrueElseHi discard isolatedTriangle isIsolatedLo
         @ pushLoIfTrueElseHi discard otherTriangles0 (\<not> isIsolatedLo)
         @ pushLoIfTrueElseHi discard otherTriangles1 (\<not> isIsolatedLo))"

definition splitTriangle_f32 ::
  "MixOrder \<Rightarrow> DiscardMode \<Rightarrow> nat \<Rightarrow> nat \<Rightarrow> TexturedTriangle \<Rightarrow> Push list" where
  "splitTriangle_f32 order discard axis plane t =
     (if planarSum axis plane t = 3 then pushLoIfTrueElseHi discard t True
      else if loSum axis plane t = 0 then pushLoIfTrueElseHi discard t False
      else if loSum axis plane t = 3 then pushLoIfTrueElseHi discard t True
      else if planarSum axis plane t = 2 then
        (let nonPlanarIndex = (if \<not> planarVertices axis plane t 0 then 0
                               else if \<not> planarVertices axis plane t 1 then 1 else 2);
             isNonPlanarLo = (vec_at (vertex t nonPlanarIndex) axis \<le> real plane)
         in pushLoIfTrueElseHi discard t isNonPlanarLo)
      else if planarSum axis plane t = 1 then splitOnePlanar_f32 order discard axis plane t
      else splitRegular_f32 order discard axis plane t)"

section \<open>Voxel positions, colors and the voxel map\<close>

datatype Vec3u = Vec3u (px: nat) (py: nat) (pz: nat)

definition vec3u_at :: "Vec3u \<Rightarrow> nat \<Rightarrow> nat" where
  "vec3u_at p a = (if a = 0 then px p else if a = 1 then py p else pz p)"

text \<open>
  A triangle that carries its shading source. The class is declared in the triangle header,
  which is not among the sources; the voxelizer reads the shading source only through
  \<open>colorAt_f(uv)\<close>, so the model carries that function next to the geometry.
\<close>

datatype VisualTriangle =
  VisualTriangle (geometry: TexturedTriangle) (colorAt_f: "Vec2 \<Rightarrow> Vec3")

text \<open>
  Modelled from the spec: \<open>textureCenter()\<close>, \<open>voxelMin()\<close>, \<open>voxelMax()\<close> and
  \<open>subdivide4()\<close> of the triangle header, which is not among the sources. The texture center
  is the centroid of the three UVs (section 4.4); the voxel bounds are the floor of the
  smallest and the ceiling of the largest coordinate on each axis (sections 4.1 and 4.3;
  voxel-space coordinates lie in \<open>[0, R]\<close>, so the conversion to an unsigned integer is the
  one of a non-negative number); the midpoint subdivision cuts every edge at its midpoint and
  interpolates the UVs alike, the center piece first and then the three corner pieces.
\<close>

definition textureCenter :: "TexturedTriangle \<Rightarrow> Vec2" where
  "textureCenter t = smul2 (1 / 3) (vadd2 (vadd2 (t0 t) (t1 t)) (t2 t))"

definition min3 :: "real \<Rightarrow> real \<Rightarrow> real \<Rightarrow> real" where
  "min3 a b c = min a (min b c)"

definition max3 :: "real \<Rightarrow> real \<Rightarrow> real \<Rightarrow> real" where
  "max3 a b c = max a (max b c)"

definition voxelMin :: "TexturedTriangle \<Rightarrow> Vec3u" where
  "voxelMin t = Vec3u (nat \<lfloor>min3 (vx (v0 t)) (vx (v1 t)) (vx (v2 t))\<rfloor>)
                      (nat \<lfloor>min3 (vy (v0 t)) (vy (v1 t)) (vy (v2 t))\<rfloor>)
                      (nat \<lfloor>min3 (vz (v0 t)) (vz (v1 t)) (vz (v2 t))\<rfloor>)"

definition voxelMax :: "TexturedTriangle \<Rightarrow> Vec3u" where
  "voxelMax t = Vec3u (nat \<lceil>max3 (vx (v0 t)) (vx (v1 t)) (vx (v2 t))\<rceil>)
                      (nat \<lceil>max3 (vy (v0 t)) (vy (v1 t)) (vy (v2 t))\<rceil>)
                      (nat \<lceil>max3 (vz (v0 t)) (vz (v1 t)) (vz (v2 t))\<rceil>)"

definition subdivide4 :: "TexturedTriangle \<Rightarrow> TexturedTriangle list" where
  "subdivide4 t =
     (let m01 = mix3 (v0 t) (v1 t) (1 / 2); m12 = mix3 (v1 t) (v2 t) (1 / 2);
          m20 = mix3 (v2 t) (v0 t) (1 / 2);
          u01 = mix2 (t0 t) (t1 t) (1 / 2); u12 = mix2 (t1 t) (t2 t) (1 / 2);
          u20 = mix2 (t2 t) (t0 t) (1 / 2)
      in [TexturedTriangle m01 m12 m20 u01 u12 u20,
          TexturedTriangle (v0 t) m01 m20 (t0 t) u01 u20,
          TexturedTriangle m01 (v1 t) m12 u01 (t1 t) u12,
          TexturedTriangle m20 m12 (v2 t) u20 u12 (t2 t)])"

text \<open>
  Modelled from the spec: \<open>WeightedColor\<close>, a weight and a color value (section 3). The
  field \<open>value\<close> of the source is \<open>wvalue\<close> here.
\<close>

record WeightedColor =
  weight :: real
  wvalue :: Vec3

text \<open>
  \<open>enum class ColorStrategy {MAX, BLEND}\<close>. The first enumerator is written \<open>MAXIMUM\<close>
  here because \<open>MAX\<close> is the notation of the library for the maximum of a family.
\<close>

datatype ColorStrategy = MAXIMUM | BLEND

text \<open>
  Modelled from the spec: the two combiners and \<open>insertColor\<close> of the utility header, which
  is not among the sources. Section 4.4 gives the blend \<open>mix\<close> as \<open>w' = w1 + w2\<close>,
  \<open>v' = (w1 * v1 + w2 * v2) / w'\<close>; section 4.5 gives MAX as keeping the strictly greater
  weight with the incumbent retained on a tie; section 4.6 gives the insertion: a write into
  an empty cell stores the contribution, a later write combines. Where both weights are zero
  the source divides zero by zero; the weight of the result, the only component the
  theorems below read in that case, is still the sum.
\<close>

definition mix_weighted :: "WeightedColor \<Rightarrow> WeightedColor \<Rightarrow> WeightedColor" where
  "mix_weighted lhs rhs =
     (let weightSum = weight lhs + weight rhs
      in \<lparr>weight = weightSum,
          wvalue = smul (1 / weightSum) (vadd (smul (weight lhs) (wvalue lhs))
                                              (smul (weight rhs) (wvalue rhs)))\<rparr>)"

definition max_weighted :: "WeightedColor \<Rightarrow> WeightedColor \<Rightarrow> WeightedColor" where
  "max_weighted incumbent contribution =
     (if weight contribution > weight incumbent then contribution else incumbent)"

type_synonym VoxelMap = "Vec3u \<rightharpoonup> WeightedColor"

definition insertColor :: "ColorStrategy \<Rightarrow> VoxelMap \<Rightarrow> Vec3u \<Rightarrow> WeightedColor \<Rightarrow> VoxelMap" where
  "insertColor strategy m pos color =
     (case m pos of
        None \<Rightarrow> m(pos \<mapsto> color)
      | Some incumbent \<Rightarrow>
          m(pos \<mapsto> (case strategy of MAXIMUM \<Rightarrow> max_weighted incumbent color
                                   | BLEND \<Rightarrow> mix_weighted incumbent color)))"

section \<open>Adaptive subdivider (voxelization.cpp)\<close>

text \<open>
  Modelled from the spec: \<open>normalize(v)\<close> of the vector header, which is not among the
  sources: the vector divided by its length. For the zero vector the source divides zero by
  zero and every component is a NaN; that case is \<open>None\<close> here, and a comparison with a value
  computed from it is false, as a comparison with a NaN is.
\<close>

definition normalize3 :: "Vec3 \<Rightarrow> Vec3 option" where
  "normalize3 a = (if length3 a = 0 then None else Some (smul (1 / length3 a) a))"

definition volumeLimit :: nat where
  "volumeLimit = 512"

definition sqrtThird :: real where
  "sqrtThird = 5773502691896257645091487805019574556476017512701268760186023264 / 10 ^ 64"

definition diagonal3 :: Vec3 where
  "diagonal3 = Vec3 sqrtThird sqrtThird sqrtThird"

definition diagonality01 :: "TexturedTriangle \<Rightarrow> real option" where
  "diagonality01 inputTriangle =
     (case normalize3 (abs3 (normal inputTriangle)) of
        None \<Rightarrow> None
      | Some n \<Rightarrow>
          (let diagonality = dot n diagonal3
           in Some ((diagonality - sqrtThird) / (1 - sqrtThird))))"

text \<open>
  \<open>size[0] * size[1] * size[2]\<close> is a product of \<open>unsigned\<close> values stored in an
  \<open>unsigned\<close>: it is taken modulo \<open>2 ^ 32\<close>.
\<close>

definition volume :: "TexturedTriangle \<Rightarrow> nat" where
  "volume triangle =
     (let vmin = voxelMin triangle; vmax = voxelMax triangle;
          size0 = px vmax - px vmin; size1 = py vmax - py vmin; size2 = pz vmax - pz vmin
      in (size0 * size1 * size2) mod 2 ^ 32)"

text \<open>
  The bounding-box volume as a number of voxels, without the wrap-around of the machine
  product.
\<close>

definition true_volume :: "TexturedTriangle \<Rightarrow> nat" where
  "true_volume triangle =
     (px (voxelMax triangle) - px (voxelMin triangle))
       * (py (voxelMax triangle) - py (voxelMin triangle))
       * (pz (voxelMax triangle) - pz (voxelMin triangle))"

text \<open>The work-list loop \<open>for (usize i = 0; i < out.size();)\<close>, entered at index \<open>i\<close>.\<close>

function subdivideLoop :: "nat \<Rightarrow> TexturedTriangle list \<Rightarrow> TexturedTriangle list" where
  "subdivideLoop i out =
     (if i < length out then
        (let triangle = out ! i
         in if volume triangle < volumeLimit then subdivideLoop (i + 1) out
            else (let subTriangles = subdivide4 triangle
                  in subdivideLoop i (out[i := subTriangles ! 0]
                                       @ [subTriangles ! 1, subTriangles ! 2, subTriangles ! 3])))
      else out)"
  by pat_completeness auto

definition subdivideLargeVolumeTriangles ::
  "TexturedTriangle \<Rightarrow> TexturedTriangle list \<Rightarrow> TexturedTriangle list" where
  "subdivideLargeVolumeTriangles inputTriangle out0 =
     (let out = out0 @ [inputTriangle]
      in if (case diagonality01 inputTriangle of None \<Rightarrow> False | Some d \<Rightarrow> d < 1 / 2)
         then out
         else subdivideLoop 0 out)"

text \<open>
  The diagonality as the specification words it: the absolute value of the dot product of
  the unit normal with the diagonal, normalized alike.
\<close>

definition spec_diagonality01 :: "TexturedTriangle \<Rightarrow> real option" where
  "spec_diagonality01 inputTriangle =
     (case normalize3 (normal inputTriangle) of
        None \<Rightarrow> None
      | Some n \<Rightarrow> Some ((\<bar>dot n diagonal3\<bar> - sqrtThird) / (1 - sqrtThird)))"

section \<open>Per-voxel clipping (voxelization.cpp)\<close>

text \<open>
  The two buffers are passed by pointer and the pointers are swapped after every cut. The
  model names the contents by the pointer that currently refers to them: a pair
  \<open>(pre, post)\<close> is the contents of \<open>*preSplitBuffer\<close> and of \<open>*postSplitBuffer\<close>. On
  every path out of \<open>voxelizeVoxel\<close> both vectors are empty, so which of the caller's two
  vectors each name denotes at that point makes no difference to the caller.
\<close>

type_synonym Buffers = "TexturedTriangle list \<times> TexturedTriangle list"

datatype Flow = Return WeightedColor Buffers | Continue Buffers

definition splittingFunction :: "nat \<Rightarrow> DiscardMode" where
  "splittingFunction hi = (if hi \<noteq> 0 then DISCARD_HI else DISCARD_LO)"

text \<open>
  \<open>for (const TexturedTriangle t : *preSplitBuffer) splittingFunction(axis, plane, t,
  *postSplitBuffer, *postSplitBuffer)\<close>: both output vectors are the post-split buffer.
\<close>

definition splitAll ::
  "DiscardMode \<Rightarrow> nat \<Rightarrow> nat \<Rightarrow> TexturedTriangle list \<Rightarrow> TexturedTriangle list \<Rightarrow> TexturedTriangle list" where
  "splitAll discard axis plane pre post =
     foldl (\<lambda>out t. aliased_after (splitTriangle discard axis plane t) out) post pre"

function axisLoop :: "nat \<Rightarrow> nat \<Rightarrow> Vec3u \<Rightarrow> Buffers \<Rightarrow> Flow" where
  "axisLoop hi axis pos bufs =
     (if axis < 3 then
        (let plane = (vec3u_at pos axis + hi) mod 2 ^ 32;
             post = splitAll (splittingFunction hi) axis plane (fst bufs) (snd bufs);
             pre = []
         in if post = [] then Return \<lparr>weight = 0, wvalue = Vec3 0 0 0\<rparr> (pre, post)
            else axisLoop hi (axis + 1) pos (post, pre))
      else Continue bufs)"
  by pat_completeness auto
termination
  by (relation "measure (\<lambda>(hi, axis, pos, bufs). 3 - axis)") auto

function hiLoop :: "nat \<Rightarrow> Vec3u \<Rightarrow> Buffers \<Rightarrow> Flow" where
  "hiLoop hi pos bufs =
     (if hi < 2 then
        (case axisLoop hi 0 pos bufs of
           Return c b \<Rightarrow> Return c b
         | Continue b \<Rightarrow> hiLoop (hi + 1) pos b)
      else Continue bufs)"
  by pat_completeness auto
termination
  by (relation "measure (\<lambda>(hi, pos, bufs). 2 - hi)") auto

definition voxelizeVoxel ::
  "VisualTriangle \<Rightarrow> Vec3u \<Rightarrow> Buffers \<Rightarrow> WeightedColor \<times> Buffers" where
  "voxelizeVoxel inputTriangle pos bufs =
     (case hiLoop 0 pos bufs of
        Return c b \<Rightarrow> (c, b)
      | Continue b \<Rightarrow>
          (let pre = snd b; post = fst b;
               result = foldl (\<lambda>result t.
                                 mix_weighted result
                                   \<lparr>weight = area (geometry inputTriangle),
                                    wvalue = colorAt_f inputTriangle (textureCenter t)\<rparr>)
                              \<lparr>weight = 0, wvalue = Vec3 0 0 0\<rparr> post
           in (result, (pre, []))))"

text \<open>
  The surviving fragments of the six cuts: the contents of the post-split buffer in front of
  the accumulation loop when the function has not returned early, and no fragment when it
  has.
\<close>

definition fragments :: "Vec3u \<Rightarrow> Buffers \<Rightarrow> TexturedTriangle list" where
  "fragments pos bufs = (case hiLoop 0 pos bufs of Return c b \<Rightarrow> [] | Continue b \<Rightarrow> fst b)"

section \<open>Voxelizing a sub-triangle and a triangle (voxelization.cpp)\<close>

definition distanceLimit :: real where
  "distanceLimit = 2"

text \<open>
  The plane normal is \<open>normalize(subTriangle.normal())\<close>; for a sub-triangle without area it
  is a vector of NaNs, the distance is a NaN, and the test \<open>abs(signedDistance) >
  distanceLimit\<close> is false.
\<close>

definition distance_point_plane :: "Vec3 \<Rightarrow> Vec3 \<Rightarrow> Vec3 option \<Rightarrow> real option" where
  "distance_point_plane p org n = (case n of None \<Rightarrow> None | Some m \<Rightarrow> Some (dot m (vsub p org)))"

definition skipped :: "TexturedTriangle \<Rightarrow> Vec3u \<Rightarrow> bool" where
  "skipped subTriangle pos =
     (let planeOrg = vertex subTriangle 0;
          planeNormal = normalize3 (normal subTriangle);
          center = Vec3 (real (px pos) + 1 / 2) (real (py pos) + 1 / 2) (real (pz pos) + 1 / 2);
          signedDistance = distance_point_plane center planeOrg planeNormal
      in case signedDistance of None \<Rightarrow> False | Some d \<Rightarrow> \<bar>d\<bar> > distanceLimit)"

text \<open>The positions the three nested loops visit, in the order they visit them.\<close>

definition positions :: "Vec3u \<Rightarrow> Vec3u \<Rightarrow> Vec3u list" where
  "positions vmin vmax =
     concat (map (\<lambda>z. concat (map (\<lambda>y. map (\<lambda>x. Vec3u x y z) [px vmin ..< px vmax])
                                    [py vmin ..< py vmax]))
                 [pz vmin ..< pz vmax])"

type_synonym VoxelizerState = "Buffers \<times> VoxelMap"

text \<open>One pass through the body of the innermost loop.\<close>

definition voxelizeAt ::
  "VisualTriangle \<Rightarrow> TexturedTriangle \<Rightarrow> VoxelizerState \<Rightarrow> Vec3u \<Rightarrow> VoxelizerState" where
  "voxelizeAt inputTriangle subTriangle st pos =
     (if skipped subTriangle pos then st
      else
        (let pre = fst (fst st) @ [subTriangle];
             r = voxelizeVoxel inputTriangle pos (pre, snd (fst st));
             color = fst r
         in if weight color \<noteq> 0 then (snd r, insertColor BLEND (snd st) pos color)
            else (snd r, snd st)))"

definition voxelizeSubTriangle ::
  "VisualTriangle \<Rightarrow> TexturedTriangle \<Rightarrow> VoxelizerState \<Rightarrow> VoxelizerState" where
  "voxelizeSubTriangle inputTriangle subTriangle st =
     foldl (voxelizeAt inputTriangle subTriangle) st
       (positions (voxelMin subTriangle) (voxelMax subTriangle))"

text \<open>
  \<open>voxelize(inputTriangle, buffers, out)\<close>: the state is the three buffers and the map, and
  the result is the state after the call.
\<close>

definition voxelize ::
  "VisualTriangle \<Rightarrow> TexturedTriangle list \<times> TexturedTriangle list \<times> TexturedTriangle list
     \<Rightarrow> VoxelMap \<Rightarrow> (TexturedTriangle list \<times> TexturedTriangle list \<times> TexturedTriangle list) \<times> VoxelMap" where
  "voxelize inputTriangle buffers out0 =
     (let buffers0 = []; buffers1 = []; buffers2 = []; out = Map.empty;
          buffers0 = subdivideLargeVolumeTriangles (geometry inputTriangle) buffers0;
          st = foldl (\<lambda>st subTriangle. voxelizeSubTriangle inputTriangle subTriangle st)
                     ((buffers1, buffers2), out) buffers0
      in ((buffers0, fst (fst st), snd (fst st)), snd st))"

section \<open>The six-plane clip as the specification words it\<close>

text \<open>
  Section 4.4, step 2: the triangles in buffer A are streamed through the splitter into
  buffer B, A is cleared and the buffers are swapped; when A becomes empty the clip ends
  without fragments. A cut is a discard mode, an axis and a plane offset.
\<close>

type_synonym Cut = "DiscardMode \<times> nat \<times> nat"

fun spec_clip :: "Cut list \<Rightarrow> TexturedTriangle list \<Rightarrow> TexturedTriangle list option" where
  "spec_clip [] A = Some A"
| "spec_clip ((discard, axis, plane) # cuts) A =
     (let B = concat (map (\<lambda>t. map fst (splitTriangle discard axis plane t)) A)
      in if B = [] then None else spec_clip cuts B)"

text \<open>
  The six cuts, side by side and axis by axis, at the planes \<open>p[a] + side\<close> (an unsigned
  sum), with the discard mode a given rule selects for each side.
\<close>

definition spec_cuts :: "(nat \<Rightarrow> DiscardMode) \<Rightarrow> Vec3u \<Rightarrow> Cut list" where
  "spec_cuts select pos =
     concat (map (\<lambda>side. map (\<lambda>a. (select side, a, (vec3u_at pos a + side) mod 2 ^ 32)) [0 ..< 3])
                 [0 ..< 2])"

text \<open>
  The selection as the specification puts it in parentheses (DiscardLo when side is high,
  DiscardHi when side is low), and the selection that discards the side of the plane that
  lies outside the voxel (DiscardLo at the low plane, DiscardHi at the high plane).
\<close>

definition claimed_selection :: "nat \<Rightarrow> DiscardMode" where
  "claimed_selection side = (if side = 1 then DISCARD_LO else DISCARD_HI)"

definition outside_selection :: "nat \<Rightarrow> DiscardMode" where
  "outside_selection side = (if side = 0 then DISCARD_LO else DISCARD_HI)"

text \<open>Step 3 of section 4.4 as the source performs it on a list of fragments.\<close>

definition accumulate :: "VisualTriangle \<Rightarrow> TexturedTriangle list \<Rightarrow> WeightedColor" where
  "accumulate inputTriangle fs =
     foldl (\<lambda>result t.
              mix_weighted result
                \<lparr>weight = area (geometry inputTriangle),
                 wvalue = colorAt_f inputTriangle (textureCenter t)\<rparr>)
           \<lparr>weight = 0, wvalue = Vec3 0 0 0\<rparr> fs"

text \<open>
  The contribution of a sub-triangle to a voxel: the color \<open>voxelizeVoxel\<close> returns when
  the pre-split buffer holds the sub-triangle alone and the post-split buffer is empty, as
  \<open>voxelizeSubTriangle\<close> calls it.
\<close>

definition contribution :: "VisualTriangle \<Rightarrow> TexturedTriangle \<Rightarrow> Vec3u \<Rightarrow> WeightedColor" where
  "contribution inputTriangle subTriangle pos =
     fst (voxelizeVoxel inputTriangle pos ([subTriangle], []))"

text \<open>
  The effect of one pass through the body of the innermost loop of \<open>voxelizeSubTriangle\<close>
  on the map, when both buffers are empty at the start of the pass.
\<close>

definition blend_step :: "VisualTriangle \<Rightarrow> TexturedTriangle \<Rightarrow> VoxelMap \<Rightarrow> Vec3u \<Rightarrow> VoxelMap" where
  "blend_step inputTriangle subTriangle m pos =
     (if skipped subTriangle pos \<or> weight (contribution inputTriangle subTriangle pos) = 0 then m
      else insertColor BLEND m pos (contribution inputTriangle subTriangle pos))"

section \<open>The contents of the map after \<open>voxelize\<close>, as a property of one triangle\<close>

text \<open>
  A sub-triangle contributes to a voxel when the voxel is one of the positions of its
  bounding box, passes the plane-distance test, and receives a color whose weight is not 0.
  The contributions of an input triangle to a voxel are those of its sub-triangles, in the
  order of the work list. A map that holds exactly the contributions of one triangle has no
  entry where there is no contribution, and elsewhere the first contribution blended with
  the later ones, one after the other.
\<close>

definition contributes :: "VisualTriangle \<Rightarrow> TexturedTriangle \<Rightarrow> Vec3u \<Rightarrow> bool" where
  "contributes inputTriangle subTriangle pos =
     (pos \<in> set (positions (voxelMin subTriangle) (voxelMax subTriangle))
      \<and> \<not> skipped subTriangle pos
      \<and> weight (contribution inputTriangle subTriangle pos) \<noteq> 0)"

definition contributions_at :: "VisualTriangle \<Rightarrow> Vec3u \<Rightarrow> WeightedColor list" where
  "contributions_at inputTriangle pos =
     map (\<lambda>subTriangle. contribution inputTriangle subTriangle pos)
       (filter (\<lambda>subTriangle. contributes inputTriangle subTriangle pos)
          (subdivideLargeVolumeTriangles (geometry inputTriangle) []))"

fun blend_all :: "WeightedColor list \<Rightarrow> WeightedColor option" where
  "blend_all [] = None"
| "blend_all (c # cs) = Some (foldl mix_weighted c cs)"

text \<open>
  The entry that the strategy-respecting insertion would leave for a voxel: the
  contributions of the triangle inserted one after the other with \<open>insertColor\<close> under the
  configured strategy, into a map that is empty at the start.
\<close>

definition configured_entry :: "ColorStrategy \<Rightarrow> VisualTriangle \<Rightarrow> Vec3u \<Rightarrow> WeightedColor option" where
  "configured_entry strategy inputTriangle pos =
     foldl (\<lambda>m c. insertColor strategy m pos c) Map.empty (contributions_at inputTriangle pos) pos"

section \<open>Command queue and workers (filevoxelization.cpp, threading.hpp)\<close>

text \<open>
  A worker command is a tagged union of a triangle, a pair of map pointers and nothing. The
  two maps of a merge are named by numbers here.
\<close>

datatype WorkerCommand = VOXELIZE_TRIANGLE VisualTriangle | MERGE_MAPS nat nat | EXIT

text \<open>
  The threads are modelled by interleaving. Every operation on the ring buffer and on the
  counter takes the mutex of its object for its whole body, so each is one atomic step:
  \<open>++commandCounter\<close>, \<open>buffer.push\<close>, \<open>buffer.pop\<close> and \<open>--commandCounter\<close>. A
  blocked thread is a thread whose next step is not enabled: \<open>push\<close> waits while the buffer
  holds \<open>capacity\<close> commands and \<open>pop\<close> waits while it is empty.

  A worker is about to call \<open>queue.receive()\<close>, is running the command it received, has
  run it and is about to call \<open>queue.complete()\<close>, or has left its loop.
\<close>

datatype WorkerPhase = Receiving | Running WorkerCommand | Completing WorkerCommand | Exited

text \<open>
  The state of the queue and its threads: the contents of the ring buffer, oldest first; the
  counter; the command that the main thread has counted in \<open>issue\<close> and not pushed yet, if it
  is between the two statements of \<open>issue\<close>; the workers; and two counts kept for the
  statement of the property only: how many commands were issued (counted at the increment)
  and how many were finished (counted when the worker that ran the command has called
  \<open>complete\<close>).
\<close>

record QueueSystem =
  buffer :: "WorkerCommand list"
  commandCounter :: nat
  issuing :: "WorkerCommand option"
  workers :: "WorkerPhase list"
  issued :: nat
  finished :: nat

definition capacity :: nat where
  "capacity = 128"

text \<open>The counter is a \<open>uintmax_t\<close>: 64 bits, and both operators wrap.\<close>

definition increment :: "nat \<Rightarrow> nat" where
  "increment c = (c + 1) mod 2 ^ 64"

definition decrement :: "nat \<Rightarrow> nat" where
  "decrement c = (c + 2 ^ 64 - 1) mod 2 ^ 64"

definition initial :: "nat \<Rightarrow> QueueSystem" where
  "initial n = \<lparr>buffer = [], commandCounter = 0, issuing = None,
                workers = replicate n Receiving, issued = 0, finished = 0\<rparr>"

text \<open>
  The phase of a worker after \<open>queue.complete()\<close>: the \<open>EXIT\<close> case of the \<open>switch\<close>
  clears \<open>looping\<close> and the worker leaves its loop; after any other command it receives
  again.
\<close>

fun after_complete :: "WorkerCommand \<Rightarrow> WorkerPhase" where
  "after_complete EXIT = Exited"
| "after_complete c = Receiving"

text \<open>
  The steps: the two statements of \<open>CommandQueue::issue\<close>, and for a worker the call of
  \<open>receive\<close>, the \<open>switch\<close> that runs the command, and the call of \<open>complete\<close> after which
  the worker loops unless the command was \<open>EXIT\<close>.
\<close>

inductive step :: "QueueSystem \<Rightarrow> QueueSystem \<Rightarrow> bool" where
  issue_count:
    "issuing s = None \<Longrightarrow>
     step s (s\<lparr>commandCounter := increment (commandCounter s), issuing := Some c,
              issued := issued s + 1\<rparr>)"
| issue_push:
    "issuing s = Some c \<Longrightarrow> length (buffer s) < capacity \<Longrightarrow>
     step s (s\<lparr>buffer := buffer s @ [c], issuing := None\<rparr>)"
| receive:
    "i < length (workers s) \<Longrightarrow> workers s ! i = Receiving \<Longrightarrow> buffer s = c # rest \<Longrightarrow>
     step s (s\<lparr>buffer := rest, workers := (workers s)[i := Running c]\<rparr>)"
| run:
    "i < length (workers s) \<Longrightarrow> workers s ! i = Running c \<Longrightarrow>
     step s (s\<lparr>workers := (workers s)[i := Completing c]\<rparr>)"
| complete:
    "i < length (workers s) \<Longrightarrow> workers s ! i = Completing c \<Longrightarrow>
     step s (s\<lparr>commandCounter := decrement (commandCounter s),
              workers := (workers s)[i := after_complete c],
              finished := finished s + 1\<rparr>)"

code_pred step .

text \<open>The states that \<open>n\<close> workers and the main thread can reach.\<close>

inductive reachable :: "nat \<Rightarrow> QueueSystem \<Rightarrow> bool" where
  start: "reachable n (initial n)"
| next_state: "reachable n s \<Longrightarrow> step s s' \<Longrightarrow> reachable n s'"

text \<open>
  The commands that are issued and not finished: the one the main thread is about to push,
  the ones in the buffer, and the ones a worker holds.
\<close>

definition busy :: "WorkerPhase \<Rightarrow> nat" where
  "busy w = (case w of Receiving \<Rightarrow> 0 | Running c \<Rightarrow> 1 | Completing c \<Rightarrow> 1 | Exited \<Rightarrow> 0)"

definition unfinished :: "QueueSystem \<Rightarrow> nat" where
  "unfinished s =
     (case issuing s of None \<Rightarrow> 0 | Some c \<Rightarrow> 1) + length (buffer s)
       + sum_list (map busy (workers s))"

definition invariant :: "nat \<Rightarrow> QueueSystem \<Rightarrow> bool" where
  "invariant n s =
     (length (workers s) = n \<and> length (buffer s) \<le> capacity
      \<and> commandCounter s = unfinished s
      \<and> issued s = finished s + unfinished s)"

section \<open>Pipeline driver (filevoxelization.cpp)\<close>

record VoxelizationArgs =
  resolution :: nat
  colorStrategy :: ColorStrategy
  permutation :: Vec3u
  downscale :: bool

text \<open>
  The triangle stream as the driver reads it: the number of vertices and the triangles that
  \<open>next()\<close> hands out while \<open>hasNext()\<close> holds.
\<close>

record ITriangleStream =
  vertexCount :: nat
  triangles :: "VisualTriangle list"

text \<open>
  The voxelizer class, the transform, the merge and the downscaler that the driver calls are
  not among the sources. What they leave in \<open>result\<close> for the output loop, in the order the
  loop iterates, is a parameter of the model: a function of the arguments, the stream and the
  number of workers.
\<close>

type_synonym Pipeline = "VoxelizationArgs \<Rightarrow> ITriangleStream \<Rightarrow> nat \<Rightarrow> (Vec3u \<times> WeightedColor) list"

text \<open>
  What the caller and the environment see of one run of the driver that returns: the value
  returned, the number of calls of \<open>sink.flush()\<close>, the number of worker threads
  constructed, and the voxels handed to \<open>sink.write\<close>.
\<close>

record DriverOutcome =
  returned :: bool
  flushes :: nat
  threadsSpawned :: nat
  voxelsWritten :: "(Vec3u \<times> Vec3) list"

text \<open>
  The output loop. The sink is given by the answers of \<open>canWrite()\<close>: the answer to the
  query that follows \<open>k\<close> writes.
\<close>

fun writeVoxels ::
  "(nat \<Rightarrow> bool) \<Rightarrow> nat \<Rightarrow> (Vec3u \<times> WeightedColor) list \<Rightarrow> (Vec3u \<times> Vec3) list
     \<Rightarrow> bool \<times> (Vec3u \<times> Vec3) list" where
  "writeVoxels canWrite k [] acc = (True, acc)"
| "writeVoxels canWrite k ((pos, color) # rest) acc =
     (if \<not> canWrite k then (False, acc)
      else writeVoxels canWrite (k + 1) rest (acc @ [(pos, wvalue color)]))"

text \<open>
  \<open>bool voxelize(VoxelizationArgs args, ITriangleStream &stream, VoxelSink &sink)\<close>, named
  \<open>voxelize_file\<close> here to keep it apart from \<open>voxelize\<close> of voxelization.cpp. The first
  argument is the value of \<open>std::thread::hardware_concurrency()\<close>, which may be 0.

  The result is \<open>None\<close> when the call does not return. With a thread count of 0 the loop
  that constructs the workers runs no round; the first triangle of the stream is issued, which
  raises the counter, and no thread exists that could ever lower it, so
  \<open>queue.waitForCompletion()\<close> blocks for ever (or, with more triangles than the ring buffer
  holds, \<open>issue\<close> does in \<open>push\<close>). With a thread count of 0 and a stream that hands out
  no triangle nothing is issued and the driver runs through. With at least one worker every
  command issued is received and completed, and the driver reaches the output loop.
\<close>

definition voxelize_file ::
  "nat \<Rightarrow> Pipeline \<Rightarrow> VoxelizationArgs \<Rightarrow> ITriangleStream \<Rightarrow> (nat \<Rightarrow> bool)
     \<Rightarrow> DriverOutcome option" where
  "voxelize_file hardware_concurrency pipeline args stream canWrite =
     (if vertexCount stream = 0
      then Some \<lparr>returned = True, flushes = 1, threadsSpawned = 0, voxelsWritten = []\<rparr>
      else
        (let threadCount = hardware_concurrency
         in if threadCount = 0 \<and> triangles stream \<noteq> [] then None
            else
              (let result = pipeline args stream threadCount;
                   w = writeVoxels canWrite 0 result []
               in Some \<lparr>returned = fst w, flushes = 0, threadsSpawned = threadCount,
                         voxelsWritten = snd w\<rparr>)))"

text \<open>
  The configurations the specification calls valid: a resolution of at least 1 and a
  permutation field that is a permutation of \<open>(0, 1, 2)\<close>.
\<close>

definition valid_args :: "VoxelizationArgs \<Rightarrow> bool" where
  "valid_args args =
     (resolution args \<noteq> 0
      \<and> set [px (permutation args), py (permutation args), pz (permutation args)] = {0, 1, 2})"

section \<open>Example inputs\<close>


text \<open>
  A triangle of area 3 in the plane \<open>z = 0\<close>, about 257 voxels from the origin on the second
  axis, which the plane \<open>x = 2\<close> cuts at \<open>y = 256 + 1/3\<close> and \<open>y = 257 + 2/3\<close>; and the
  three triangles that the single-precision cut makes of it.
\<close>

definition far_triangle :: TexturedTriangle where
  "far_triangle =
     TexturedTriangle (Vec3 0 257 0) (Vec3 3 256 0) (Vec3 3 258 0) (Vec2 0 0) (Vec2 1 0) (Vec2 0 1)"

definition far_isolated :: TexturedTriangle where
  "far_isolated =
     TexturedTriangle (Vec3 0 257 0) (Vec3 2 (8399531 / 32768) 0) (Vec3 2 (8443221 / 32768) 0)
       (Vec2 0 0) (Vec2 (11184811 / 16777216) 0) (Vec2 0 (11184811 / 16777216))"

definition far_other0 :: TexturedTriangle where
  "far_other0 =
     TexturedTriangle (Vec3 2 (8399531 / 32768) 0) (Vec3 3 256 0) (Vec3 3 258 0)
       (Vec2 (11184811 / 16777216) 0) (Vec2 1 0) (Vec2 0 1)"

definition far_other1 :: TexturedTriangle where
  "far_other1 =
     TexturedTriangle (Vec3 2 (8399531 / 32768) 0) (Vec3 2 (8443221 / 32768) 0) (Vec3 3 258 0)
       (Vec2 (11184811 / 16777216) 0) (Vec2 0 (11184811 / 16777216)) (Vec2 0 1)"

text \<open>
  The triangle of the first end-to-end scenario of the specification, in the plane
  \<open>z = 1/2\<close>.
\<close>

definition example_triangle :: TexturedTriangle where
  "example_triangle =
     TexturedTriangle (Vec3 0 0 (1 / 2)) (Vec3 2 0 (1 / 2)) (Vec3 0 2 (1 / 2))
       (Vec2 0 0) (Vec2 1 0) (Vec2 0 1)"

text \<open>
  What remains of the example triangle in the voxel at the origin after the cut at
  \<open>x = 1\<close> (two triangles) and after the cut at \<open>y = 1\<close> (the first of them is cut
  again).
\<close>

definition example_other0 :: TexturedTriangle where
  "example_other0 =
     TexturedTriangle (Vec3 1 1 (1 / 2)) (Vec3 0 2 (1 / 2)) (Vec3 0 0 (1 / 2))
       (Vec2 (1 / 2) (1 / 2)) (Vec2 0 1) (Vec2 0 0)"

definition example_other1 :: TexturedTriangle where
  "example_other1 =
     TexturedTriangle (Vec3 1 1 (1 / 2)) (Vec3 1 0 (1 / 2)) (Vec3 0 0 (1 / 2))
       (Vec2 (1 / 2) (1 / 2)) (Vec2 (1 / 2) 0) (Vec2 0 0)"

definition example_fragment :: TexturedTriangle where
  "example_fragment =
     TexturedTriangle (Vec3 1 1 (1 / 2)) (Vec3 0 1 (1 / 2)) (Vec3 0 0 (1 / 2))
       (Vec2 (1 / 2) (1 / 2)) (Vec2 0 (1 / 2)) (Vec2 0 0)"

text \<open>The example triangle with the constant color \<open>(1, 0, 0)\<close> of that scenario.\<close>

definition red_example :: VisualTriangle where
  "red_example = VisualTriangle example_triangle (\<lambda>uv. Vec3 1 0 0)"

text \<open>A triangle that lies strictly inside the unit cube of the voxel at the origin.\<close>

definition inner_triangle :: TexturedTriangle where
  "inner_triangle =
     TexturedTriangle (Vec3 (1 / 4) (1 / 4) (1 / 2)) (Vec3 (3 / 4) (1 / 4) (1 / 2))
       (Vec3 (1 / 4) (3 / 4) (1 / 2)) (Vec2 0 0) (Vec2 1 0) (Vec2 0 1)"

text \<open>
  The inner triangle with the constant color \<open>(1, 0, 0)\<close>, and a map that already holds a
  contribution of weight 10 and color \<open>(0, 0, 1)\<close> for the voxel at the origin.
\<close>

definition red_inner :: VisualTriangle where
  "red_inner = VisualTriangle inner_triangle (\<lambda>uv. Vec3 1 0 0)"

definition blue_map :: VoxelMap where
  "blue_map = [Vec3u 0 0 0 \<mapsto> \<lparr>weight = 10, wvalue = Vec3 0 0 1\<rparr>]"

text \<open>
  A triangle whose normal is a multiple of \<open>(2, -1, -2)\<close> and whose voxel bounding box
  measures 8 by 16 by 8, and a triangle whose normal is a multiple of \<open>(1, 2, 2)\<close> and whose
  voxel bounding box measures 2048 in every direction (a triangle across the whole grid at
  resolution 2048).
\<close>

definition diag_triangle :: TexturedTriangle where
  "diag_triangle =
     TexturedTriangle (Vec3 0 0 0) (Vec3 8 16 0) (Vec3 8 0 8) (Vec2 0 0) (Vec2 1 0) (Vec2 0 1)"

definition big_triangle :: TexturedTriangle where
  "big_triangle =
     TexturedTriangle (Vec3 0 0 2048) (Vec3 2048 0 1024) (Vec3 0 2048 0)
       (Vec2 0 0) (Vec2 1 0) (Vec2 0 1)"

text \<open>
  Two states of one worker and the main thread: the single command issued has been popped
  and is being run, and the command has been run and completed.
\<close>

definition popped_state :: QueueSystem where
  "popped_state = \<lparr>buffer = [], commandCounter = 1, issuing = None,
                     workers = [Running EXIT], issued = 1, finished = 0\<rparr>"

definition final_state :: QueueSystem where
  "final_state = \<lparr>buffer = [], commandCounter = 0, issuing = None,
                    workers = [Exited], issued = 1, finished = 1\<rparr>"

text \<open>
  A configuration with resolution 0 and a permutation field that is no permutation, a mesh of
  one triangle, and a pipeline that leaves one voxel for the output loop.
\<close>

definition invalid_args :: VoxelizationArgs where
  "invalid_args = \<lparr>resolution = 0, colorStrategy = BLEND, permutation = Vec3u 0 0 0,
                     downscale = False\<rparr>"

definition one_triangle_stream :: ITriangleStream where
  "one_triangle_stream = \<lparr>vertexCount = 3, triangles = [red_inner]\<rparr>"

definition one_voxel_pipeline :: Pipeline where
  "one_voxel_pipeline = (\<lambda>args stream threadCount.
     [(Vec3u 0 0 0, \<lparr>weight = 1, wvalue = Vec3 1 0 0\<rparr>)])"

text \<open>
  A slanted wall: a triangle in the vertical plane \<open>3 x + 4 y = 24\<close>, whose normal is a
  multiple of \<open>(3, 4, 0)\<close> and whose voxel bounding box measures 8 by 6 by 11. Its texture
  shows red where \<open>u + v < 1/2\<close>, which is the corner piece at vertex 0 of the midpoint
  subdivision, and blue elsewhere.
\<close>

definition wall_triangle :: TexturedTriangle where
  "wall_triangle =
     TexturedTriangle (Vec3 0 6 0) (Vec3 8 0 0) (Vec3 0 6 11) (Vec2 0 0) (Vec2 1 0) (Vec2 0 1)"

definition two_tone :: "Vec2 \<Rightarrow> Vec3" where
  "two_tone uv = (if ux uv + uy uv < 1 / 2 then Vec3 1 0 0 else Vec3 0 0 1)"

definition wall :: VisualTriangle where
  "wall = VisualTriangle wall_triangle two_tone"

text \<open>The four pieces of the midpoint subdivision of the wall, the center piece first.\<close>

definition wall_center :: TexturedTriangle where
  "wall_center =
     TexturedTriangle (Vec3 4 3 0) (Vec3 4 3 (11 / 2)) (Vec3 0 6 (11 / 2))
       (Vec2 (1 / 2) 0) (Vec2 (1 / 2) (1 / 2)) (Vec2 0 (1 / 2))"

definition wall_corner0 :: TexturedTriangle where
  "wall_corner0 =
     TexturedTriangle (Vec3 0 6 0) (Vec3 4 3 0) (Vec3 0 6 (11 / 2))
       (Vec2 0 0) (Vec2 (1 / 2) 0) (Vec2 0 (1 / 2))"

definition wall_corner1 :: TexturedTriangle where
  "wall_corner1 =
     TexturedTriangle (Vec3 4 3 0) (Vec3 8 0 0) (Vec3 4 3 (11 / 2))
       (Vec2 (1 / 2) 0) (Vec2 1 0) (Vec2 (1 / 2) (1 / 2))"

definition wall_corner2 :: TexturedTriangle where
  "wall_corner2 =
     TexturedTriangle (Vec3 0 6 (11 / 2)) (Vec3 4 3 (11 / 2)) (Vec3 0 6 11)
       (Vec2 0 (1 / 2)) (Vec2 (1 / 2) (1 / 2)) (Vec2 0 1)"

text \<open>
  What the cuts for the voxel \<open>(3, 3, 0)\<close> leave of the center piece: two triangles after
  the cut at \<open>x = 3\<close>, and one fragment after the cut at \<open>z = 1\<close>.
\<close>

definition wall_center_cut0 :: TexturedTriangle where
  "wall_center_cut0 =
     TexturedTriangle (Vec3 3 (15 / 4) (11 / 8)) (Vec3 4 3 0) (Vec3 4 3 (11 / 2))
       (Vec2 (3 / 8) (1 / 8)) (Vec2 (1 / 2) 0) (Vec2 (1 / 2) (1 / 2))"

definition wall_center_cut1 :: TexturedTriangle where
  "wall_center_cut1 =
     TexturedTriangle (Vec3 3 (15 / 4) (11 / 8)) (Vec3 3 (15 / 4) (11 / 2)) (Vec3 4 3 (11 / 2))
       (Vec2 (3 / 8) (1 / 8)) (Vec2 (3 / 8) (1 / 2)) (Vec2 (1 / 2) (1 / 2))"

definition wall_center_fragment :: TexturedTriangle where
  "wall_center_fragment =
     TexturedTriangle (Vec3 4 3 0) (Vec3 4 3 1) (Vec3 (36 / 11) (39 / 11) 1)
       (Vec2 (1 / 2) 0) (Vec2 (1 / 2) (1 / 11)) (Vec2 (9 / 22) (1 / 11))"

text \<open>
  What the same cuts leave of the corner piece at vertex 0: one triangle after the cut at
  \<open>x = 3\<close>, and two fragments after the cut at \<open>z = 1\<close>.
\<close>

definition wall_corner_cut :: TexturedTriangle where
  "wall_corner_cut =
     TexturedTriangle (Vec3 4 3 0) (Vec3 3 (15 / 4) (11 / 8)) (Vec3 3 (15 / 4) 0)
       (Vec2 (1 / 2) 0) (Vec2 (3 / 8) (1 / 8)) (Vec2 (3 / 8) 0)"

definition wall_corner_fragment0 :: TexturedTriangle where
  "wall_corner_fragment0 =
     TexturedTriangle (Vec3 3 (15 / 4) 1) (Vec3 3 (15 / 4) 0) (Vec3 4 3 0)
       (Vec2 (3 / 8) (1 / 11)) (Vec2 (3 / 8) 0) (Vec2 (1 / 2) 0)"

definition wall_corner_fragment1 :: TexturedTriangle where
  "wall_corner_fragment1 =
     TexturedTriangle (Vec3 3 (15 / 4) 1) (Vec3 (36 / 11) (39 / 11) 1) (Vec3 4 3 0)
       (Vec2 (3 / 8) (1 / 11)) (Vec2 (9 / 22) (1 / 11)) (Vec2 (1 / 2) 0)"

section \<open>Measures for the subdivision loop\<close>

text \<open>
  The extent of a triangle on an axis, the largest of the three extents, and the weight that
  the termination argument of the work-list loop gives a triangle.
\<close>

definition extent :: "TexturedTriangle \<Rightarrow> nat \<Rightarrow> real" where
  "extent t a =
     max3 (vec_at (v0 t) a) (vec_at (v1 t) a) (vec_at (v2 t) a)
       - min3 (vec_at (v0 t) a) (vec_at (v1 t) a) (vec_at (v2 t) a)"

definition maxExtent :: "TexturedTriangle \<Rightarrow> real" where
  "maxExtent t = max (extent t 0) (max (extent t 1) (extent t 2))"

definition subdivisionWeight :: "TexturedTriangle \<Rightarrow> nat" where
  "subdivisionWeight t = nat \<lceil>(maxExtent t) ^ 3\<rceil> + 1"

section \<open>Properties of the splitter\<close>






lemma vec_at_mix3: "vec_at (mix3 p q s) a = (1 - s) * vec_at p a + s * vec_at q a"
  by (simp add: vec_at_def mix3_def vadd_def smul_def)




































lemmas geo_defs = vec_at_def vertex_def texture_def vsub_def vadd_def smul_def mix3_def
  mix2_def vadd2_def smul2_def



section \<open>Termination of the subdivision loop\<close>


lemma halves_center:
  fixes a b c :: real
  shows "max (a / 2 + b / 2) (max (b / 2 + c / 2) (c / 2 + a / 2)) * 2
           - min (a / 2 + b / 2) (min (b / 2 + c / 2) (c / 2 + a / 2)) * 2
         = max a (max b c) - min a (min b c)"
  by (cases "a \<le> b"; cases "b \<le> c"; cases "a \<le> c"; simp add: max_def min_def)

lemma halves_corner0:
  fixes a b c :: real
  shows "max a (max (a / 2 + b / 2) (c / 2 + a / 2)) * 2
           - min a (min (a / 2 + b / 2) (c / 2 + a / 2)) * 2
         = max a (max b c) - min a (min b c)"
  by (cases "a \<le> b"; cases "b \<le> c"; cases "a \<le> c"; simp add: max_def min_def)

lemma halves_corner1:
  fixes a b c :: real
  shows "max (a / 2 + b / 2) (max b (b / 2 + c / 2)) * 2
           - min (a / 2 + b / 2) (min b (b / 2 + c / 2)) * 2
         = max a (max b c) - min a (min b c)"
  by (cases "a \<le> b"; cases "b \<le> c"; cases "a \<le> c"; simp add: max_def min_def)

lemma halves_corner2:
  fixes a b c :: real
  shows "max (c / 2 + a / 2) (max (b / 2 + c / 2) c) * 2
           - min (c / 2 + a / 2) (min (b / 2 + c / 2) c) * 2
         = max a (max b c) - min a (min b c)"
  by (cases "a \<le> b"; cases "b \<le> c"; cases "a \<le> c"; simp add: max_def min_def)

lemma extent_subdivide4_0: "extent (subdivide4 t ! 0) a = extent t a / 2"
  unfolding subdivide4_def Let_def extent_def
  by (simp add: vec_at_mix3 max3_def min3_def halves_center)

lemma extent_subdivide4_1: "extent (subdivide4 t ! 1) a = extent t a / 2"
  unfolding subdivide4_def Let_def extent_def
  by (simp add: vec_at_mix3 max3_def min3_def halves_corner0)

lemma extent_subdivide4_2: "extent (subdivide4 t ! 2) a = extent t a / 2"
  unfolding subdivide4_def Let_def extent_def
  by (simp add: vec_at_mix3 max3_def min3_def halves_corner1)

lemma extent_subdivide4_3: "extent (subdivide4 t ! 3) a = extent t a / 2"
  unfolding subdivide4_def Let_def extent_def
  by (simp add: vec_at_mix3 max3_def min3_def halves_corner2)

lemmas extent_subdivide4 = extent_subdivide4_0 extent_subdivide4_1 extent_subdivide4_2
  extent_subdivide4_3

lemma maxExtent_subdivide4:
  "maxExtent (subdivide4 t ! 0) = maxExtent t / 2"
  "maxExtent (subdivide4 t ! 1) = maxExtent t / 2"
  "maxExtent (subdivide4 t ! 2) = maxExtent t / 2"
  "maxExtent (subdivide4 t ! 3) = maxExtent t / 2"
  unfolding maxExtent_def extent_subdivide4 by linarith+

lemma size_le_extent:
  fixes lo hi :: real
  assumes "8 \<le> nat \<lceil>hi\<rceil> - nat \<lfloor>lo\<rfloor>"
  shows "6 < hi - lo"
proof -
  have "int (nat \<lceil>hi\<rceil> - nat \<lfloor>lo\<rfloor>) \<le> \<lceil>hi\<rceil> - \<lfloor>lo\<rfloor>"
    using assms by linarith
  then have "8 \<le> \<lceil>hi\<rceil> - \<lfloor>lo\<rfloor>" using assms by linarith
  then have "8 \<le> real_of_int \<lceil>hi\<rceil> - real_of_int \<lfloor>lo\<rfloor>"
    by (metis of_int_diff of_int_le_iff of_int_numeral)
  moreover have "real_of_int \<lceil>hi\<rceil> < hi + 1" by linarith
  moreover have "lo - 1 < real_of_int \<lfloor>lo\<rfloor>" by linarith
  ultimately show ?thesis by linarith
qed

lemma product_small:
  fixes a b c :: nat
  assumes "a < 8" "b < 8" "c < 8"
  shows "a * b * c < 512"
proof -
  have "a * b \<le> 7 * 7" using assms by (intro mult_le_mono) simp_all
  then have "a * b * c \<le> 7 * 7 * 7" using assms by (intro mult_le_mono) simp_all
  then show ?thesis by simp
qed

lemma large_volume_extent:
  assumes "\<not> volume t < volumeLimit"
  shows "6 < maxExtent t"
proof -
  let ?sx = "px (voxelMax t) - px (voxelMin t)"
  let ?sy = "py (voxelMax t) - py (voxelMin t)"
  let ?sz = "pz (voxelMax t) - pz (voxelMin t)"
  have "512 \<le> (?sx * ?sy * ?sz) mod 2 ^ 32"
    using assms by (simp add: volume_def volumeLimit_def Let_def)
  also have "\<dots> \<le> ?sx * ?sy * ?sz" by (rule mod_less_eq_dividend)
  finally have "\<not> (?sx < 8 \<and> ?sy < 8 \<and> ?sz < 8)"
    using product_small [of ?sx ?sy ?sz] by linarith
  then consider "8 \<le> ?sx" | "8 \<le> ?sy" | "8 \<le> ?sz" by linarith
  then show ?thesis
  proof cases
    case 1
    then have "6 < extent t 0"
      unfolding extent_def by (intro size_le_extent) (simp add: voxelMax_def voxelMin_def vec_at_def)
    then show ?thesis by (simp add: maxExtent_def)
  next
    case 2
    then have "6 < extent t 1"
      unfolding extent_def by (intro size_le_extent) (simp add: voxelMax_def voxelMin_def vec_at_def)
    then show ?thesis by (simp add: maxExtent_def)
  next
    case 3
    then have "6 < extent t 2"
      unfolding extent_def by (intro size_le_extent) (simp add: voxelMax_def voxelMin_def vec_at_def)
    then show ?thesis by (simp add: maxExtent_def)
  qed
qed

lemma ceiling_eighth:
  fixes x :: real
  assumes "216 < x"
  shows "4 * (nat \<lceil>x / 8\<rceil> + 1) < nat \<lceil>x\<rceil> + 1"
proof -
  define p where "p = \<lceil>x / 8\<rceil>"
  define q where "q = \<lceil>x\<rceil>"
  have "real_of_int p < x / 8 + 1" unfolding p_def by linarith
  moreover have "x \<le> real_of_int q" unfolding q_def by linarith
  ultimately have "4 * (real_of_int p + 1) < real_of_int q + 1"
    using assms by argo
  then have "real_of_int (4 * (p + 1)) < real_of_int (q + 1)" by simp
  then have pq: "4 * (p + 1) < q + 1" by (simp only: of_int_less_iff)
  have "0 \<le> p" unfolding p_def using assms by (simp add: le_ceiling_iff)
  moreover have "0 \<le> q" unfolding q_def using assms by (simp add: le_ceiling_iff)
  ultimately have "4 * (nat p + 1) < nat q + 1" using pq by arith
  then show ?thesis by (simp only: p_def q_def)
qed

lemma weight_decreases:
  fixes e :: real
  assumes "6 < e"
  shows "4 * (nat \<lceil>(e / 2) ^ 3\<rceil> + 1) < nat \<lceil>e ^ 3\<rceil> + 1"
proof -
  have "6 ^ 3 < e ^ 3" using assms by (intro power_strict_mono) simp_all
  then have e3: "216 < e ^ 3" by simp
  have h: "(e / 2) ^ 3 = e ^ 3 / 8" by (simp add: power_divide)
  show ?thesis unfolding h by (rule ceiling_eighth [OF e3])
qed

lemma subdivisionWeight_decreases:
  assumes "\<not> volume t < volumeLimit"
  shows "subdivisionWeight (subdivide4 t ! 0) + subdivisionWeight (subdivide4 t ! 1)
         + subdivisionWeight (subdivide4 t ! 2) + subdivisionWeight (subdivide4 t ! 3)
         < subdivisionWeight t"
  using weight_decreases [OF large_volume_extent [OF assms]]
  unfolding subdivisionWeight_def maxExtent_subdivide4 by simp

termination subdivideLoop
proof (relation "measure (\<lambda>(i, out). sum_list (map subdivisionWeight (drop i out)))")
  show "wf (measure (\<lambda>(i, out). sum_list (map subdivisionWeight (drop i out))))" by simp
next
  fix i :: nat and out :: "TexturedTriangle list" and triangle
  assume "i < length out" "triangle = out ! i" "volume triangle < volumeLimit"
  then show "((i + 1, out), (i, out)) \<in> measure (\<lambda>(i, out). sum_list (map subdivisionWeight (drop i out)))"
    by (simp add: Cons_nth_drop_Suc [symmetric] subdivisionWeight_def)
next
  fix i :: nat and out :: "TexturedTriangle list" and triangle subTriangles
  assume a: "i < length out" "triangle = out ! i" "\<not> volume triangle < volumeLimit"
    "subTriangles = subdivide4 triangle"
  have "drop i (out[i := subTriangles ! 0] @ [subTriangles ! 1, subTriangles ! 2, subTriangles ! 3])
        = subTriangles ! 0 # drop (Suc i) out @ [subTriangles ! 1, subTriangles ! 2, subTriangles ! 3]"
    using a(1) by (simp add: Cons_nth_drop_Suc [symmetric] upd_conv_take_nth_drop)
  moreover have "drop i out = triangle # drop (Suc i) out"
    using a(1,2) by (simp add: Cons_nth_drop_Suc)
  ultimately show "((i, out[i := subTriangles ! 0] @ [subTriangles ! 1, subTriangles ! 2, subTriangles ! 3]), (i, out))
        \<in> measure (\<lambda>(i, out). sum_list (map subdivisionWeight (drop i out)))"
    using subdivisionWeight_decreases [OF a(3)] a(4) by simp
qed

declare subdivideLoop.simps [simp del]

declare axisLoop.simps [simp del]

declare hiLoop.simps [simp del]

section \<open>Properties of the per-voxel clip\<close>


lemma foldl_aliased:
  "foldl (\<lambda>out t. aliased_after (f t) out) post pre = post @ concat (map (\<lambda>t. map fst (f t)) pre)"
  by (induction pre arbitrary: post) (simp_all add: aliased_after_def)

lemma splitAll_concat:
  "splitAll discard axis plane pre post
     = post @ concat (map (\<lambda>t. map fst (splitTriangle discard axis plane t)) pre)"
  by (simp add: splitAll_def foldl_aliased)

lemma axisLoop_spec:
  "axis \<le> 3 \<Longrightarrow> axisLoop hi axis pos (A, []) =
     (case spec_clip (map (\<lambda>a. (splittingFunction hi, a, (vec3u_at pos a + hi) mod 2 ^ 32)) [axis ..< 3]) A of
        None \<Rightarrow> Return \<lparr>weight = 0, wvalue = Vec3 0 0 0\<rparr> ([], [])
      | Some F \<Rightarrow> Continue (F, []))"
proof (induction "3 - axis" arbitrary: axis A)
  case 0
  then have "axis = 3" by simp
  then show ?case by (simp add: axisLoop.simps)
next
  case (Suc n)
  then have lt: "axis < 3" and n: "n = 3 - (axis + 1)" and le: "axis + 1 \<le> 3" by simp_all
  have up: "[axis ..< 3] = axis # [axis + 1 ..< 3]" using lt by (simp add: upt_conv_Cons)
  show ?case
    using lt Suc(1) [OF n le]
    by (subst axisLoop.simps) (simp add: up splitAll_concat Let_def)
qed

lemma spec_clip_append:
  "spec_clip (cs @ ds) A = (case spec_clip cs A of None \<Rightarrow> None | Some B \<Rightarrow> spec_clip ds B)"
  by (induction cs A rule: spec_clip.induct) (simp_all add: Let_def)

lemma splittingFunction_outside: "splittingFunction = outside_selection"
  by (rule ext) (simp add: splittingFunction_def outside_selection_def)

lemma spec_cuts_sides:
  "spec_cuts select pos =
     map (\<lambda>a. (select 0, a, (vec3u_at pos a + 0) mod 2 ^ 32)) [0 ..< 3]
     @ map (\<lambda>a. (select 1, a, (vec3u_at pos a + 1) mod 2 ^ 32)) [0 ..< 3]"
proof -
  have "[0 ..< 2] = [0, 1::nat]" by (simp add: upt_conv_Cons)
  then show ?thesis by (simp add: spec_cuts_def)
qed

lemma hiLoop_spec:
  "hiLoop 0 pos (A, []) =
     (case spec_clip (spec_cuts outside_selection pos) A of
        None \<Rightarrow> Return \<lparr>weight = 0, wvalue = Vec3 0 0 0\<rparr> ([], [])
      | Some F \<Rightarrow> Continue (F, []))"
proof -
  have two: "hiLoop (Suc (Suc 0)) pos b = Continue b" for b by (simp add: hiLoop.simps)
  have one: "hiLoop (Suc 0) pos (B, []) =
     (case spec_clip (map (\<lambda>a. (splittingFunction 1, a, (vec3u_at pos a + 1) mod 2 ^ 32)) [0 ..< 3]) B of
        None \<Rightarrow> Return \<lparr>weight = 0, wvalue = Vec3 0 0 0\<rparr> ([], [])
      | Some F \<Rightarrow> Continue (F, []))" for B
    by (subst hiLoop.simps) (simp add: axisLoop_spec two split: option.split)
  show ?thesis
    by (subst hiLoop.simps)
       (simp add: axisLoop_spec one spec_cuts_sides spec_clip_append splittingFunction_outside
          split: option.split)
qed

lemma fragments_spec:
  "fragments pos (A, []) =
     (case spec_clip (spec_cuts outside_selection pos) A of None \<Rightarrow> [] | Some F \<Rightarrow> F)"
  by (simp add: fragments_def hiLoop_spec split: option.split)

lemma voxelizeVoxel_buffers: "snd (voxelizeVoxel inputTriangle pos (A, [])) = ([], [])"
  by (simp add: voxelizeVoxel_def hiLoop_spec Let_def split: option.split)

lemma voxelizeVoxel_accumulate:
  "fst (voxelizeVoxel inputTriangle pos (A, []))
     = (case spec_clip (spec_cuts outside_selection pos) A of
          None \<Rightarrow> \<lparr>weight = 0, wvalue = Vec3 0 0 0\<rparr>
        | Some F \<Rightarrow> accumulate inputTriangle F)"
  by (simp add: voxelizeVoxel_def hiLoop_spec accumulate_def Let_def split: option.split)

lemma spec_cuts_outside:
  "spec_cuts outside_selection pos =
     [(DISCARD_LO, 0, px pos mod 2 ^ 32), (DISCARD_LO, 1, py pos mod 2 ^ 32),
      (DISCARD_LO, 2, pz pos mod 2 ^ 32),
      (DISCARD_HI, 0, (px pos + 1) mod 2 ^ 32), (DISCARD_HI, 1, (py pos + 1) mod 2 ^ 32),
      (DISCARD_HI, 2, (pz pos + 1) mod 2 ^ 32)]"
proof -
  have "[0 ..< 3] = [0, 1, 2::nat]" by (simp add: upt_conv_Cons)
  then show ?thesis
    by (simp add: spec_cuts_sides outside_selection_def vec3u_at_def)
qed

lemma weight_foldl_mix:
  "weight (foldl (\<lambda>result t. mix_weighted result \<lparr>weight = w, wvalue = c t\<rparr>) r fs)
     = weight r + real (length fs) * w"
  by (induction fs arbitrary: r) (simp_all add: mix_weighted_def Let_def algebra_simps)

lemma weight_accumulate:
  "weight (accumulate inputTriangle fs) = real (length fs) * area (geometry inputTriangle)"
  by (simp add: accumulate_def weight_foldl_mix)


lemmas split_eval = splitTriangle_def planarSum_def loSum_def planarVertices_def loVertices_def
  eq_plane_def isZero_def EPSILON_def geo_defs splitRegular_def splitOnePlanar_def
  pushLoIfTrueElseHi_def intersect_ray_axisPlane_def Let_def splitAll_def aliased_after_def
  splittingFunction_def vec3u_at_def


lemma cut_lo_x: "splitAll DISCARD_LO 0 0 [example_triangle] [] = [example_triangle]"
  by (simp add: split_eval example_triangle_def)
lemma cut_lo_y: "splitAll DISCARD_LO (Suc 0) 0 [example_triangle] [] = [example_triangle]"
  by (simp add: split_eval example_triangle_def)
lemma cut_lo_z: "splitAll DISCARD_LO (Suc (Suc 0)) 0 [example_triangle] [] = [example_triangle]"
  by (simp add: split_eval example_triangle_def)
lemma cut_hi_x:
  "splitAll DISCARD_HI 0 (Suc 0) [example_triangle] [] = [example_other0, example_other1]"
  by (simp add: split_eval example_triangle_def example_other0_def example_other1_def)
lemma cut_hi_y:
  "splitAll DISCARD_HI (Suc 0) (Suc 0) [example_other0, example_other1] []
     = [example_fragment, example_other1]"
  by (simp add: split_eval example_fragment_def example_other0_def example_other1_def)
lemma cut_hi_z:
  "splitAll DISCARD_HI (Suc (Suc 0)) (Suc 0) [example_fragment, example_other1] []
     = [example_fragment, example_other1]"
  by (simp add: split_eval example_fragment_def example_other0_def example_other1_def)

lemma hiLoop_ex:
  "hiLoop 0 (Vec3u 0 0 0) ([example_triangle], [])
     = Continue ([example_fragment, example_other1], [])"
  by (simp add: hiLoop.simps axisLoop.simps splittingFunction_def vec3u_at_def Let_def
      cut_lo_x cut_lo_y cut_lo_z cut_hi_x cut_hi_y cut_hi_z)

lemma area_xy:
  "area (TexturedTriangle (Vec3 a b h) (Vec3 c d h) (Vec3 e f h) x y z)
     = \<bar>(c - a) * (f - b) - (d - b) * (e - a)\<bar> / 2"
  by (simp add: area_def normal_def cross_def vsub_def length3_def dot_def)

lemma areas: "area example_triangle = 2" "area example_fragment = 1 / 2" "area example_other1 = 1 / 2"
  by (simp_all add: example_triangle_def example_fragment_def example_other1_def area_xy)


lemma voxelizeVoxel_weight:
  "weight (fst (voxelizeVoxel inputTriangle pos (A, [])))
     = real (length (fragments pos (A, []))) * area (geometry inputTriangle)"
  by (simp add: voxelizeVoxel_accumulate fragments_spec weight_accumulate split: option.split)

lemma inner_cuts:
  "splitAll DISCARD_LO 0 0 [inner_triangle] [] = [inner_triangle]"
  "splitAll DISCARD_LO (Suc 0) 0 [inner_triangle] [] = [inner_triangle]"
  "splitAll DISCARD_LO (Suc (Suc 0)) 0 [inner_triangle] [] = [inner_triangle]"
  "splitAll DISCARD_HI 0 (Suc 0) [inner_triangle] [] = [inner_triangle]"
  "splitAll DISCARD_HI (Suc 0) (Suc 0) [inner_triangle] [] = [inner_triangle]"
  "splitAll DISCARD_HI (Suc (Suc 0)) (Suc 0) [inner_triangle] [] = [inner_triangle]"
  "splitAll DISCARD_HI 0 0 [inner_triangle] [] = []"
  by (simp_all add: split_eval inner_triangle_def)

lemma hiLoop_inner:
  "hiLoop 0 (Vec3u 0 0 0) ([inner_triangle], []) = Continue ([inner_triangle], [])"
  by (simp add: hiLoop.simps axisLoop.simps splittingFunction_def vec3u_at_def Let_def inner_cuts)

text \<open>
  Claim C2, amended. Started with an empty post-split buffer, \<open>voxelizeVoxel\<close> performs the
  six cuts in the order low side then high side, and within a side the axes 0, 1, 2, each at
  the plane \<open>p[a] + side\<close>; the low cuts use the routine that discards lo and the high cuts
  the routine that discards hi, so that what is discarded lies outside the voxel. When the
  buffer is empty after a cut the result is the color with weight 0 and value 0; otherwise
  the result is the accumulation over the fragments that are left.
\<close>

theorem voxelizeVoxel_six_plane_clip:
  "fst (voxelizeVoxel inputTriangle pos (A, []))
     = (case spec_clip (spec_cuts outside_selection pos) A of
          None \<Rightarrow> \<lparr>weight = 0, wvalue = Vec3 0 0 0\<rparr>
        | Some F \<Rightarrow> accumulate inputTriangle F)
   \<and> spec_cuts outside_selection pos =
     [(DISCARD_LO, 0, px pos mod 2 ^ 32), (DISCARD_LO, 1, py pos mod 2 ^ 32),
      (DISCARD_LO, 2, pz pos mod 2 ^ 32),
      (DISCARD_HI, 0, (px pos + 1) mod 2 ^ 32), (DISCARD_HI, 1, (py pos + 1) mod 2 ^ 32),
      (DISCARD_HI, 2, (pz pos + 1) mod 2 ^ 32)]"
  using voxelizeVoxel_accumulate [of inputTriangle pos A] spec_cuts_outside [of pos] by simp

theorem voxelizeVoxel_six_plane_clip_witness:
  "fst (voxelizeVoxel red_example (Vec3u 0 0 0) ([example_triangle], []))
     = accumulate red_example [example_fragment, example_other1]
   \<and> fst (voxelizeVoxel red_example (Vec3u 0 0 0) ([example_triangle], []))
     \<noteq> \<lparr>weight = 0, wvalue = Vec3 0 0 0\<rparr>"
proof -
  have "spec_clip (spec_cuts outside_selection (Vec3u 0 0 0)) [example_triangle]
        = Some [example_fragment, example_other1]"
    using fragments_spec [of "Vec3u 0 0 0" "[example_triangle]"]
    by (simp add: fragments_def hiLoop_ex split: option.splits)
  then have eq: "fst (voxelizeVoxel red_example (Vec3u 0 0 0) ([example_triangle], []))
     = accumulate red_example [example_fragment, example_other1]"
    using voxelizeVoxel_six_plane_clip [of red_example "Vec3u 0 0 0" "[example_triangle]"]
    by simp
  have "weight (accumulate red_example [example_fragment, example_other1]) = 4"
    by (simp add: weight_accumulate red_example_def areas)
  then show ?thesis using eq by auto
qed

text \<open>
  Claim C2 as stated fails. The inner triangle lies strictly inside the unit cube of the
  voxel at the origin. The code cuts the low planes with the routine that discards lo and
  keeps the triangle through all six cuts; the selection the claim names (the routine that
  discards hi at the low planes) drops the triangle at the first cut.
\<close>

theorem claimed_selection_counterexample:
  "splittingFunction 0 = DISCARD_LO \<and> splittingFunction 1 = DISCARD_HI
   \<and> fragments (Vec3u 0 0 0) ([inner_triangle], []) = [inner_triangle]
   \<and> spec_clip (spec_cuts claimed_selection (Vec3u 0 0 0)) [inner_triangle] = None"
proof -
  have "[0 ..< 3] = [0, 1, 2::nat]" "[0 ..< 2] = [0, 1::nat]" by (simp_all add: upt_conv_Cons)
  then have "spec_clip (spec_cuts claimed_selection (Vec3u 0 0 0)) [inner_triangle] = None"
    using inner_cuts(7) by (simp add: spec_cuts_def claimed_selection_def vec3u_at_def splitAll_concat)
  then show ?thesis
    by (simp add: splittingFunction_def fragments_def hiLoop_inner)
qed

section \<open>Properties of the voxelizer\<close>


lemma voxelizeAt_empty_buffers:
  "voxelizeAt inputTriangle subTriangle (([], []), m) pos
     = (([], []), blend_step inputTriangle subTriangle m pos)"
  using voxelizeVoxel_buffers [of inputTriangle pos "[subTriangle]"]
  by (simp add: voxelizeAt_def blend_step_def contribution_def Let_def)

lemma foldl_voxelizeAt:
  "foldl (voxelizeAt inputTriangle subTriangle) (([], []), m) ps
     = (([], []), foldl (blend_step inputTriangle subTriangle) m ps)"
  by (induction ps arbitrary: m) (simp_all add: voxelizeAt_empty_buffers)

lemma blend_step_other: "p \<noteq> pos \<Longrightarrow> blend_step inputTriangle subTriangle m pos p = m p"
  by (simp add: blend_step_def insertColor_def split: option.split)

lemma foldl_blend_step_notin:
  "p \<notin> set ps \<Longrightarrow> foldl (blend_step inputTriangle subTriangle) m ps p = m p"
  by (induction ps arbitrary: m) (auto simp: blend_step_other)

lemma blend_step_same:
  "blend_step inputTriangle subTriangle m p p =
     (if \<not> skipped subTriangle p \<and> weight (contribution inputTriangle subTriangle p) \<noteq> 0
      then Some (case m p of None \<Rightarrow> contribution inputTriangle subTriangle p
                 | Some incumbent \<Rightarrow> mix_weighted incumbent (contribution inputTriangle subTriangle p))
      else m p)"
  by (simp add: blend_step_def insertColor_def split: option.split)

lemma foldl_blend_step_distinct:
  "distinct ps \<Longrightarrow> foldl (blend_step inputTriangle subTriangle) m ps p =
     (if p \<in> set ps \<and> \<not> skipped subTriangle p \<and> weight (contribution inputTriangle subTriangle p) \<noteq> 0
      then Some (case m p of None \<Rightarrow> contribution inputTriangle subTriangle p
                 | Some incumbent \<Rightarrow> mix_weighted incumbent (contribution inputTriangle subTriangle p))
      else m p)"
proof (induction ps arbitrary: m)
  case Nil
  then show ?case by simp
next
  case (Cons q ps)
  show ?case
  proof (cases "p = q")
    case True
    have "q \<notin> set ps" using Cons.prems by simp
    then show ?thesis unfolding True
      by (simp add: foldl_blend_step_notin blend_step_same)
  next
    case False
    then show ?thesis using Cons by (simp add: blend_step_other)
  qed
qed

lemma positions_product:
  "positions vmin vmax =
     map (\<lambda>(z, y, x). Vec3u x y z)
       (List.product [pz vmin ..< pz vmax] (List.product [py vmin ..< py vmax] [px vmin ..< px vmax]))"
  by (simp add: positions_def product_concat_map map_concat comp_def)

lemma distinct_positions: "distinct (positions vmin vmax)"
  unfolding positions_product
  by (rule iffD2 [OF distinct_map]) (auto simp: distinct_product inj_on_def)

lemma voxelizeSubTriangle_pointwise:
  "snd (voxelizeSubTriangle inputTriangle subTriangle (([], []), m)) p =
     (if p \<in> set (positions (voxelMin subTriangle) (voxelMax subTriangle))
         \<and> \<not> skipped subTriangle p \<and> weight (contribution inputTriangle subTriangle p) \<noteq> 0
      then Some (case m p of None \<Rightarrow> contribution inputTriangle subTriangle p
                 | Some incumbent \<Rightarrow> mix_weighted incumbent (contribution inputTriangle subTriangle p))
      else m p)"
  by (simp add: voxelizeSubTriangle_def foldl_voxelizeAt foldl_blend_step_distinct [OF distinct_positions])

lemma voxelizeSubTriangle_buffers:
  "fst (voxelizeSubTriangle inputTriangle subTriangle (([], []), m)) = ([], [])"
  by (simp add: voxelizeSubTriangle_def foldl_voxelizeAt)

lemma length3_z: "length3 (Vec3 0 0 c) = \<bar>c\<bar>"
  by (simp add: length3_def dot_def)

lemma half_rounding: "\<lceil>1 / 2 :: real\<rceil> = 1" "\<lfloor>1 / 2 :: real\<rfloor> = 0"
  by (simp_all add: ceiling_eq_iff floor_eq_iff)

lemma positions_inner:
  "positions (voxelMin inner_triangle) (voxelMax inner_triangle) = [Vec3u 0 0 0]"
  by (simp add: positions_def voxelMin_def voxelMax_def inner_triangle_def min3_def max3_def
        half_rounding)

lemma skipped_inner: "\<not> skipped inner_triangle (Vec3u 0 0 0)"
  by (simp add: skipped_def normal_def cross_def vsub_def normalize3_def length3_z inner_triangle_def
        distance_point_plane_def dot_def smul_def vertex_def distanceLimit_def Let_def)

lemma area_inner: "area inner_triangle = 1 / 8"
  by (simp add: inner_triangle_def area_xy)

lemma contribution_inner: "weight (contribution red_inner inner_triangle (Vec3u 0 0 0)) = 1 / 8"
  using voxelizeVoxel_weight [of red_inner "Vec3u 0 0 0" "[inner_triangle]"]
  by (simp add: contribution_def fragments_def hiLoop_inner red_inner_def area_inner)

text \<open>
  Claim C3, amended. \<open>voxelizeSubTriangle\<close> takes no color strategy: started with empty
  buffers, it leaves at every position \<open>p\<close> of the voxel bounding box that passes the
  plane-distance test and whose contribution has a weight other than 0 the contribution
  itself when the map had no entry for \<open>p\<close>, and the blend (\<open>mix\<close>) of the entry and the
  contribution when it had one, whichever strategy the voxelizer was configured with. At every
  other position, in particular where the contribution has weight 0, the map is unchanged.
\<close>

theorem voxelizeSubTriangle_blend_insertion:
  "snd (voxelizeSubTriangle inputTriangle subTriangle (([], []), m)) p =
     (if p \<in> set (positions (voxelMin subTriangle) (voxelMax subTriangle))
         \<and> \<not> skipped subTriangle p \<and> weight (contribution inputTriangle subTriangle p) \<noteq> 0
      then Some (case m p of None \<Rightarrow> contribution inputTriangle subTriangle p
                 | Some incumbent \<Rightarrow> mix_weighted incumbent (contribution inputTriangle subTriangle p))
      else m p)"
  by (rule voxelizeSubTriangle_pointwise)

theorem voxelizeSubTriangle_blend_insertion_witness:
  "weight (the (snd (voxelizeSubTriangle red_inner inner_triangle (([], []), Map.empty)) (Vec3u 0 0 0))) = 1 / 8
   \<and> snd (voxelizeSubTriangle red_inner inner_triangle (([], []), Map.empty)) (Vec3u 1 0 0) = None"
  using voxelizeSubTriangle_blend_insertion [of red_inner inner_triangle Map.empty "Vec3u 0 0 0"]
    voxelizeSubTriangle_blend_insertion [of red_inner inner_triangle Map.empty "Vec3u 1 0 0"]
  by (simp add: positions_inner skipped_inner contribution_inner)

lemma foldl_voxelizeSubTriangle_buffers:
  "fst (foldl (\<lambda>st S. voxelizeSubTriangle inputTriangle S st) (([], []), m) Ss) = ([], [])"
proof (induction Ss arbitrary: m)
  case Nil
  then show ?case by simp
next
  case (Cons S Ss)
  obtain m' where "voxelizeSubTriangle inputTriangle S (([], []), m) = (([], []), m')"
    using voxelizeSubTriangle_buffers [of inputTriangle S m] by (metis prod.collapse)
  then show ?case using Cons.IH [of m'] by simp
qed

lemma diagonality01_inner: "diagonality01 inner_triangle = Some 0"
  by (simp add: diagonality01_def normal_def cross_def vsub_def abs3_def normalize3_def length3_z
        inner_triangle_def smul_def dot_def diagonal3_def Let_def)

lemma subdivide_inner: "subdivideLargeVolumeTriangles inner_triangle [] = [inner_triangle]"
  by (simp add: subdivideLargeVolumeTriangles_def diagonality01_inner Let_def)

lemma blend_fold_some:
  "foldl (\<lambda>acc S. if P S then Some (case acc of None \<Rightarrow> c S | Some i \<Rightarrow> mix_weighted i (c S)) else acc)
         (Some x) Ss
     = Some (foldl mix_weighted x (map c (filter P Ss)))"
  by (induction Ss arbitrary: x) simp_all

lemma blend_fold_none:
  "foldl (\<lambda>acc S. if P S then Some (case acc of None \<Rightarrow> c S | Some i \<Rightarrow> mix_weighted i (c S)) else acc)
         None Ss
     = blend_all (map c (filter P Ss))"
  by (induction Ss) (simp_all add: blend_fold_some)

lemma foldl_voxelizeSubTriangle_pointwise:
  "snd (foldl (\<lambda>st S. voxelizeSubTriangle inputTriangle S st) (([], []), m) Ss) p
     = foldl (\<lambda>acc S. if contributes inputTriangle S p
                       then Some (case acc of None \<Rightarrow> contribution inputTriangle S p
                                  | Some i \<Rightarrow> mix_weighted i (contribution inputTriangle S p))
                       else acc)
             (m p) Ss"
proof (induction Ss arbitrary: m)
  case Nil
  then show ?case by simp
next
  case (Cons S Ss)
  obtain m' where m': "voxelizeSubTriangle inputTriangle S (([], []), m) = (([], []), m')"
    using voxelizeSubTriangle_buffers [of inputTriangle S m] by (metis prod.collapse)
  have "m' p = snd (voxelizeSubTriangle inputTriangle S (([], []), m)) p"
    by (simp add: m')
  then have "m' p = (if contributes inputTriangle S p
                     then Some (case m p of None \<Rightarrow> contribution inputTriangle S p
                                | Some i \<Rightarrow> mix_weighted i (contribution inputTriangle S p))
                     else m p)"
    by (simp add: voxelizeSubTriangle_pointwise contributes_def)
  then show ?case using Cons.IH [of m'] by (simp add: m')
qed

lemma voxelize_pointwise:
  "snd (voxelize inputTriangle buffers out) p = blend_all (contributions_at inputTriangle p)"
  by (simp add: voxelize_def Let_def foldl_voxelizeSubTriangle_pointwise blend_fold_none
        contributions_at_def)

lemma voxelize_buffers:
  "fst (voxelize inputTriangle buffers out)
     = (subdivideLargeVolumeTriangles (geometry inputTriangle) [], [], [])"
  using foldl_voxelizeSubTriangle_buffers
     [of inputTriangle Map.empty "subdivideLargeVolumeTriangles (geometry inputTriangle) []"]
  by (simp add: voxelize_def Let_def)

text \<open>
  Claim C10. \<open>voxelize\<close> clears the three buffers and the map on entry. Whatever they held
  before the call, after it the map holds exactly the contributions of this input triangle:
  at every position the entry is the blend of the contributions of the sub-triangles of this
  triangle to that voxel, taken in the order of the work list, and there is no entry where no
  sub-triangle contributes. The first buffer holds the sub-triangles of this triangle and the
  two buffers of the clip are empty.
\<close>

theorem voxelize_resets_output:
  "snd (voxelize inputTriangle buffers out) = (\<lambda>p. blend_all (contributions_at inputTriangle p))
   \<and> fst (voxelize inputTriangle buffers out)
       = (subdivideLargeVolumeTriangles (geometry inputTriangle) [], [], [])
   \<and> voxelize inputTriangle buffers out = voxelize inputTriangle ([], [], []) Map.empty"
proof -
  have "snd (voxelize inputTriangle buffers out) = (\<lambda>p. blend_all (contributions_at inputTriangle p))"
    by (rule ext) (rule voxelize_pointwise)
  moreover have "voxelize inputTriangle buffers out = voxelize inputTriangle ([], [], []) Map.empty"
    by (simp add: voxelize_def)
  ultimately show ?thesis using voxelize_buffers [of inputTriangle buffers out] by simp
qed

theorem voxelize_resets_output_witness:
  "snd (voxelize red_inner ([example_triangle], [], [inner_triangle]) blue_map)
     = [Vec3u 0 0 0 \<mapsto> contribution red_inner inner_triangle (Vec3u 0 0 0)]
   \<and> weight (contribution red_inner inner_triangle (Vec3u 0 0 0)) = 1 / 8
   \<and> fst (voxelize red_inner ([example_triangle], [], [inner_triangle]) blue_map)
     = ([inner_triangle], [], [])"
proof -
  note v = voxelize_resets_output [of red_inner "([example_triangle], [], [inner_triangle])" blue_map]
  have g: "geometry red_inner = inner_triangle" by (simp add: red_inner_def)
  have "blend_all (contributions_at red_inner p)
        = [Vec3u 0 0 0 \<mapsto> contribution red_inner inner_triangle (Vec3u 0 0 0)] p" for p
    by (simp add: contributions_at_def contributes_def g subdivide_inner positions_inner
          skipped_inner contribution_inner)
  then have "(\<lambda>p. blend_all (contributions_at red_inner p))
        = [Vec3u 0 0 0 \<mapsto> contribution red_inner inner_triangle (Vec3u 0 0 0)]"
    by (rule ext)
  then show ?thesis
    using v [THEN conjunct1] v [THEN conjunct2, THEN conjunct1]
    by (simp add: g subdivide_inner contribution_inner)
qed

section \<open>The weight of a voxel contribution\<close>


lemma diagonality01_example: "diagonality01 example_triangle = Some 0"
  by (simp add: diagonality01_def normal_def cross_def vsub_def abs3_def normalize3_def length3_z
        example_triangle_def smul_def dot_def diagonal3_def Let_def)

lemma subdivide_example: "subdivideLargeVolumeTriangles example_triangle [] = [example_triangle]"
  by (simp add: subdivideLargeVolumeTriangles_def diagonality01_example Let_def)

lemma positions_example:
  "positions (voxelMin example_triangle) (voxelMax example_triangle)
     = [Vec3u 0 0 0, Vec3u 1 0 0, Vec3u 0 1 0, Vec3u 1 1 0]"
proof -
  have "[0 ..< 2] = [0, 1::nat]" by (simp add: upt_conv_Cons)
  then show ?thesis
    by (simp add: positions_def voxelMin_def voxelMax_def example_triangle_def min3_def max3_def
          half_rounding)
qed

lemma skipped_example: "\<not> skipped example_triangle (Vec3u 0 0 0)"
  by (simp add: skipped_def normal_def cross_def vsub_def normalize3_def length3_z
        example_triangle_def distance_point_plane_def dot_def smul_def vertex_def
        distanceLimit_def Let_def)

lemma contribution_example:
  "weight (contribution red_example example_triangle (Vec3u 0 0 0)) = 4"
  by (simp add: contribution_def voxelizeVoxel_def hiLoop_ex mix_weighted_def Let_def areas
        red_example_def)

lemma voxelize_example:
  "weight (the (snd (voxelize red_example buffers out) (Vec3u 0 0 0))) = 4"
proof -
  have "snd (voxelize red_example buffers out)
        = snd (voxelizeSubTriangle red_example example_triangle (([], []), Map.empty))"
    by (simp add: voxelize_def Let_def red_example_def subdivide_example)
  then show ?thesis
    by (simp add: voxelizeSubTriangle_pointwise positions_example skipped_example
          contribution_example)
qed

text \<open>
  Claim C1, at the input where the code departs from it. The example triangle has area 2.
  In the voxel at the origin the six cuts leave two fragments whose areas add up to 1, the
  area of the intersection of the triangle with the unit cube. The accumulation loop gives
  every fragment the weight \<open>inputTriangle.area()\<close>, the area of the whole input triangle,
  so the weight returned is 4, and 4 is the weight that \<open>voxelize\<close> stores for the voxel.
\<close>

theorem voxelizeVoxel_weight_example:
  "fragments (Vec3u 0 0 0) ([example_triangle], []) = [example_fragment, example_other1]
   \<and> area example_fragment + area example_other1 = 1
   \<and> area example_triangle = 2
   \<and> weight (fst (voxelizeVoxel red_example (Vec3u 0 0 0) ([example_triangle], []))) = 4
   \<and> weight (the (snd (voxelize red_example ([], [], []) Map.empty) (Vec3u 0 0 0))) = 4"
  using voxelize_example [of "([], [], [])" Map.empty] contribution_example
  by (simp add: fragments_def hiLoop_ex areas contribution_def)

section \<open>Properties of the subdivider\<close>


lemma sqrtThird_bounds: "3 / 7 < sqrtThird" "sqrtThird < 1"
  by (simp_all add: sqrtThird_def)

lemma sqrt_values: "sqrt 36864 = 192" "sqrt 39582418599936 = 6291456"
  by (rule real_sqrt_unique; simp)+

lemma normal_diag: "normal diag_triangle = Vec3 128 (- 64) (- 128)"
  by (simp add: normal_def cross_def vsub_def diag_triangle_def)

lemma normal_big: "normal big_triangle = Vec3 2097152 4194304 4194304"
  by (simp add: normal_def cross_def vsub_def big_triangle_def)

lemma spec_diag: "spec_diagonality01 diag_triangle = Some ((sqrtThird / 3 - sqrtThird) / (1 - sqrtThird))"
  using sqrtThird_bounds
  by (simp add: spec_diagonality01_def normal_diag normalize3_def length3_def dot_def sqrt_values smul_def diagonal3_def)

lemma code_diag: "diagonality01 diag_triangle = Some ((5 * sqrtThird / 3 - sqrtThird) / (1 - sqrtThird))"
  by (simp add: diagonality01_def normal_diag abs3_def normalize3_def length3_def dot_def sqrt_values
       smul_def diagonal3_def Let_def algebra_simps)

lemma code_big: "diagonality01 big_triangle = Some ((5 * sqrtThird / 3 - sqrtThird) / (1 - sqrtThird))"
  by (simp add: diagonality01_def normal_big abs3_def normalize3_def length3_def dot_def sqrt_values
       smul_def diagonal3_def Let_def algebra_simps)

lemma not_below_half: "\<not> (5 * sqrtThird / 3 - sqrtThird) / (1 - sqrtThird) < 1 / 2"
  using sqrtThird_bounds by (simp add: field_simps)

lemma spec_below_half: "(sqrtThird / 3 - sqrtThird) / (1 - sqrtThird) < 1 / 2"
  using sqrtThird_bounds by (simp add: field_simps)

lemma volume_big: "volume big_triangle = 0" "true_volume big_triangle = 8589934592"
  by (simp_all add: volume_def true_volume_def voxelMin_def voxelMax_def big_triangle_def min3_def max3_def Let_def)

lemma subdivideLoop_small:
  "(\<forall>t \<in> set (drop i out). volume t < volumeLimit) \<Longrightarrow> subdivideLoop i out = out"
proof (induction "length out - i" arbitrary: i)
  case 0
  then show ?case by (subst subdivideLoop.simps) simp
next
  case (Suc n)
  then have lt: "i < length out" by simp
  then have d: "drop i out = out ! i # drop (Suc i) out" by (simp add: Cons_nth_drop_Suc)
  have "subdivideLoop (i + 1) out = out"
    using Suc(2) Suc(3) by (intro Suc(1)) (simp_all add: d)
  then show ?case using lt Suc(3)
    by (subst subdivideLoop.simps) (simp add: d Let_def)
qed

lemma subdivide_loop_entered:
  "\<not> (case diagonality01 t of None \<Rightarrow> False | Some d \<Rightarrow> d < 1 / 2)
   \<Longrightarrow> subdivideLargeVolumeTriangles t [] = subdivideLoop 0 [t]"
  by (simp add: subdivideLargeVolumeTriangles_def Let_def)

lemma not_near_axis:
  "\<not> (case diagonality01 diag_triangle of None \<Rightarrow> False | Some d \<Rightarrow> d < 1 / 2)"
  "\<not> (case diagonality01 big_triangle of None \<Rightarrow> False | Some d \<Rightarrow> d < 1 / 2)"
  by (simp_all only: code_diag code_big option.case not_below_half not_False_eq_True)

lemma subdivide_big: "subdivideLargeVolumeTriangles big_triangle [] = [big_triangle]"
  by (simp add: subdivide_loop_entered [OF not_near_axis(2)] subdivideLoop_small volume_big
        volumeLimit_def)

lemma volume_diag: "volume diag_triangle = 1024"
  by (simp add: volume_def voxelMin_def voxelMax_def diag_triangle_def min3_def max3_def Let_def)

lemma volumes_diag_parts:
  "volume (subdivide4 diag_triangle ! 0) = 128"
  "volume (subdivide4 diag_triangle ! 1) = 128"
  "volume (subdivide4 diag_triangle ! 2) = 128"
  "volume (subdivide4 diag_triangle ! 3) = 128"
  by (simp_all add: volume_def voxelMin_def voxelMax_def diag_triangle_def min3_def max3_def Let_def
        subdivide4_def mix3_def vadd_def smul_def)

lemma subdivide_diag:
  "length (subdivideLargeVolumeTriangles diag_triangle []) = 4"
proof -
  define a where "a = subdivide4 diag_triangle ! 0"
  define b where "b = subdivide4 diag_triangle ! Suc 0"
  define c where "c = subdivide4 diag_triangle ! 2"
  define d where "d = subdivide4 diag_triangle ! 3"
  have v: "volume a = 128" "volume b = 128" "volume c = 128" "volume d = 128"
    using volumes_diag_parts by (simp_all add: a_def b_def c_def d_def)
  have 0: "subdivideLoop 0 [a, b, c, d] = [a, b, c, d]"
    by (rule subdivideLoop_small) (simp add: v volumeLimit_def)
  have "subdivideLoop 0 [diag_triangle] = subdivideLoop 0 [a, b, c, d]"
    by (subst subdivideLoop.simps) (simp add: volume_diag volumeLimit_def Let_def a_def b_def c_def d_def)
  then show ?thesis
    by (simp add: subdivide_loop_entered [OF not_near_axis(1)] 0)
qed


lemma subdivideLoop_volume:
  "(\<forall>t \<in> set (take i out). volume t < volumeLimit)
   \<Longrightarrow> (\<forall>t \<in> set (subdivideLoop i out). volume t < volumeLimit)"
proof (induction i out rule: subdivideLoop.induct)
  case (1 i out)
  show ?case
  proof (cases "i < length out")
    case False
    then show ?thesis using "1.prems" by (subst subdivideLoop.simps) simp
  next
    case lt: True
    show ?thesis
    proof (cases "volume (out ! i) < volumeLimit")
      case True
      have "\<forall>t \<in> set (take (i + 1) out). volume t < volumeLimit"
        using "1.prems" lt True by (simp add: take_Suc_conv_app_nth)
      then have "\<forall>t \<in> set (subdivideLoop (i + 1) out). volume t < volumeLimit"
        using lt True by (intro "1.IH"(1)) simp_all
      then show ?thesis using lt True by (subst subdivideLoop.simps) (simp add: Let_def)
    next
      case False
      let ?s = "subdivide4 (out ! i)"
      let ?out = "out[i := ?s ! 0] @ [?s ! 1, ?s ! 2, ?s ! 3]"
      have "take i ?out = take i out" using lt by simp
      then have "\<forall>t \<in> set (take i ?out). volume t < volumeLimit"
        using "1.prems" by simp
      then have "\<forall>t \<in> set (subdivideLoop i ?out). volume t < volumeLimit"
        using lt False by (intro "1.IH"(2)) simp_all
      then show ?thesis using lt False by (subst subdivideLoop.simps) (simp add: Let_def)
    qed
  qed
qed

text \<open>
  What holds of the work-list loop for every input: it returns (the function is total, by the
  termination proof above), and every triangle it returns passed the test of the loop, that
  is, the product of its three box sizes taken modulo \<open>2 ^ 32\<close> is below the limit.
\<close>

lemma subdivide_machine_volume:
  "\<not> (case diagonality01 t of None \<Rightarrow> False | Some d \<Rightarrow> d < 1 / 2)
   \<Longrightarrow> \<forall>s \<in> set (subdivideLargeVolumeTriangles t []). volume s < volumeLimit"
  using subdivideLoop_volume [of 0 "[t]"] by (simp add: subdivide_loop_entered)

text \<open>
  Claim C4, amended. The diagonality the code tests is the dot product of the normalized
  componentwise absolute value of the triangle's normal with \<open>diagonal3\<close>, mapped by
  \<open>(d - sqrtThird) / (1 - sqrtThird)\<close>. Whenever this number exists (the normal is not zero)
  and is below \<open>1/2\<close>, the subdivider, called with an empty output vector, returns the vector
  that holds the unmodified input triangle alone.
\<close>

theorem subdivide_early_return:
  "diagonality01 t = Some d \<and> d < 1 / 2 \<longrightarrow> subdivideLargeVolumeTriangles t [] = [t]"
  by (simp add: subdivideLargeVolumeTriangles_def Let_def)

theorem subdivide_early_return_witness:
  "diagonality01 inner_triangle = Some 0 \<and> (0 :: real) < 1 / 2
   \<and> subdivideLargeVolumeTriangles inner_triangle [] = [inner_triangle]"
  using subdivide_early_return [of inner_triangle 0] by (simp add: diagonality01_inner)

text \<open>
  Claim C4 as stated fails. For the triangle \<open>diag_triangle\<close> the absolute value of the dot
  product of the unit normal \<open>(2/3, -1/3, -2/3)\<close> with the diagonal, normalized as the claim
  says, is below \<open>1/2\<close> (it is negative); the code takes the absolute value of each component
  of the normal first, finds a diagonality above \<open>1/2\<close>, and subdivides the triangle into
  four.
\<close>

theorem absolute_dot_product_counterexample:
  "(case spec_diagonality01 diag_triangle of None \<Rightarrow> False | Some d \<Rightarrow> d < 1 / 2)
   \<and> length (subdivideLargeVolumeTriangles diag_triangle []) = 4
   \<and> subdivideLargeVolumeTriangles diag_triangle [] \<noteq> [diag_triangle]"
proof -
  have "case spec_diagonality01 diag_triangle of None \<Rightarrow> False | Some d \<Rightarrow> d < 1 / 2"
    by (simp only: spec_diag option.case spec_below_half)
  moreover have "subdivideLargeVolumeTriangles diag_triangle [] \<noteq> [diag_triangle]"
    using subdivide_diag by auto
  ultimately show ?thesis using subdivide_diag by simp
qed

text \<open>
  Claim C8, at the input where the code departs from it. The triangle \<open>big_triangle\<close> is not
  near-axis-aligned and its voxel bounding box holds \<open>2048 * 2048 * 2048\<close> voxels. The
  product of the three sizes is computed in 32-bit unsigned arithmetic and wraps to 0, the
  test \<open>volume < volumeLimit\<close> succeeds, and the triangle is returned as it is.
\<close>

theorem subdivide_overflow_example:
  "\<not> (case diagonality01 big_triangle of None \<Rightarrow> False | Some d \<Rightarrow> d < 1 / 2)
   \<and> voxelMin big_triangle = Vec3u 0 0 0 \<and> voxelMax big_triangle = Vec3u 2048 2048 2048
   \<and> volume big_triangle = 0
   \<and> true_volume big_triangle = 8589934592
   \<and> subdivideLargeVolumeTriangles big_triangle [] = [big_triangle]"
  using not_near_axis(2) volume_big subdivide_big
  by (simp add: voxelMin_def voxelMax_def big_triangle_def min3_def max3_def)


section \<open>The color strategy and the contributions of one triangle\<close>

lemma wall_center_cuts:
  "splitAll DISCARD_LO 0 3 [wall_center] [] = [wall_center_cut0, wall_center_cut1]"
  "splitAll DISCARD_LO (Suc 0) 3 [wall_center_cut0, wall_center_cut1] [] = [wall_center_cut0, wall_center_cut1]"
  "splitAll DISCARD_LO (Suc (Suc 0)) 0 [wall_center_cut0, wall_center_cut1] [] = [wall_center_cut0, wall_center_cut1]"
  "splitAll DISCARD_HI 0 4 [wall_center_cut0, wall_center_cut1] [] = [wall_center_cut0, wall_center_cut1]"
  "splitAll DISCARD_HI (Suc 0) 4 [wall_center_cut0, wall_center_cut1] [] = [wall_center_cut0, wall_center_cut1]"
  "splitAll DISCARD_HI (Suc (Suc 0)) (Suc 0) [wall_center_cut0, wall_center_cut1] [] = [wall_center_fragment]"
  by (simp_all add: split_eval wall_center_def wall_center_cut0_def wall_center_cut1_def wall_center_fragment_def)

lemma wall_corner_cuts:
  "splitAll DISCARD_LO 0 3 [wall_corner0] [] = [wall_corner_cut]"
  "splitAll DISCARD_LO (Suc 0) 3 [wall_corner_cut] [] = [wall_corner_cut]"
  "splitAll DISCARD_LO (Suc (Suc 0)) 0 [wall_corner_cut] [] = [wall_corner_cut]"
  "splitAll DISCARD_HI 0 4 [wall_corner_cut] [] = [wall_corner_cut]"
  "splitAll DISCARD_HI (Suc 0) 4 [wall_corner_cut] [] = [wall_corner_cut]"
  "splitAll DISCARD_HI (Suc (Suc 0)) (Suc 0) [wall_corner_cut] [] = [wall_corner_fragment0, wall_corner_fragment1]"
  by (simp_all add: split_eval wall_corner0_def wall_corner_cut_def wall_corner_fragment0_def wall_corner_fragment1_def)

lemma hiLoop_wall_center:
  "hiLoop 0 (Vec3u 3 3 0) ([wall_center], []) = Continue ([wall_center_fragment], [])"
  by (simp add: hiLoop.simps axisLoop.simps splittingFunction_def vec3u_at_def Let_def wall_center_cuts)

lemma hiLoop_wall_corner:
  "hiLoop 0 (Vec3u 3 3 0) ([wall_corner0], []) = Continue ([wall_corner_fragment0, wall_corner_fragment1], [])"
  by (simp add: hiLoop.simps axisLoop.simps splittingFunction_def vec3u_at_def Let_def wall_corner_cuts)

lemma wall_sqrt: "sqrt 12100 = 110" "sqrt (3025 / 4) = 55 / 2"
  by (rule real_sqrt_unique; simp add: power2_eq_square)+

lemma normal_wall: "normal wall_triangle = Vec3 (- 66) (- 88) 0"
  by (simp add: normal_def cross_def vsub_def wall_triangle_def)

lemma area_wall: "area wall_triangle = 55"
  by (simp add: area_def normal_wall length3_def dot_def wall_sqrt)

lemma code_wall: "diagonality01 wall_triangle = Some ((7 * sqrtThird / 5 - sqrtThird) / (1 - sqrtThird))"
  by (simp add: diagonality01_def normal_wall abs3_def normalize3_def length3_def dot_def wall_sqrt
       smul_def diagonal3_def Let_def algebra_simps)

lemma wall_sqrtThird: "5 / 9 < sqrtThird"
  by (simp add: sqrtThird_def)

lemma wall_not_below_half: "\<not> (7 * sqrtThird / 5 - sqrtThird) / (1 - sqrtThird) < 1 / 2"
  using sqrtThird_bounds wall_sqrtThird by (simp add: field_simps)

lemma wall_not_near_axis:
  "\<not> (case diagonality01 wall_triangle of None \<Rightarrow> False | Some d \<Rightarrow> d < 1 / 2)"
  by (simp only: code_wall option.case wall_not_below_half not_False_eq_True)

lemma subdivide4_wall: "subdivide4 wall_triangle = [wall_center, wall_corner0, wall_corner1, wall_corner2]"
  by (simp add: subdivide4_def wall_triangle_def wall_center_def wall_corner0_def wall_corner1_def
        wall_corner2_def mix3_def mix2_def vadd_def smul_def vadd2_def smul2_def Let_def)

lemma eleven_halves: "\<lceil>11 / 2 :: real\<rceil> = 6" "\<lfloor>11 / 2 :: real\<rfloor> = 5"
  by (simp_all add: ceiling_eq_iff floor_eq_iff)

lemma wall_boxes:
  "voxelMin wall_triangle = Vec3u 0 0 0" "voxelMax wall_triangle = Vec3u 8 6 11"
  "voxelMin wall_center = Vec3u 0 3 0" "voxelMax wall_center = Vec3u 4 6 6"
  "voxelMin wall_corner0 = Vec3u 0 3 0" "voxelMax wall_corner0 = Vec3u 4 6 6"
  "voxelMin wall_corner1 = Vec3u 4 0 0" "voxelMax wall_corner1 = Vec3u 8 3 6"
  "voxelMin wall_corner2 = Vec3u 0 3 5" "voxelMax wall_corner2 = Vec3u 4 6 11"
  by (simp_all add: voxelMin_def voxelMax_def wall_triangle_def wall_center_def wall_corner0_def
        wall_corner1_def wall_corner2_def min3_def max3_def eleven_halves)

lemma wall_volumes:
  "volume wall_triangle = 528" "volume wall_center = 72" "volume wall_corner0 = 72"
  "volume wall_corner1 = 72" "volume wall_corner2 = 72"
  by (simp_all add: volume_def wall_boxes Let_def)

lemma subdivide_wall:
  "subdivideLargeVolumeTriangles wall_triangle [] = [wall_center, wall_corner0, wall_corner1, wall_corner2]"
proof -
  have 0: "subdivideLoop 0 [wall_center, wall_corner0, wall_corner1, wall_corner2]
           = [wall_center, wall_corner0, wall_corner1, wall_corner2]"
    by (rule subdivideLoop_small) (simp add: wall_volumes volumeLimit_def)
  have "subdivideLoop 0 [wall_triangle]
        = subdivideLoop 0 [wall_center, wall_corner0, wall_corner1, wall_corner2]"
    by (subst subdivideLoop.simps) (simp add: wall_volumes volumeLimit_def Let_def subdivide4_wall)
  then show ?thesis
    by (simp add: subdivide_loop_entered [OF wall_not_near_axis] 0)
qed

lemma in_positions:
  "p \<in> set (positions vmin vmax)
     \<longleftrightarrow> px vmin \<le> px p \<and> px p < px vmax \<and> py vmin \<le> py p \<and> py p < py vmax
         \<and> pz vmin \<le> pz p \<and> pz p < pz vmax"
  by (cases p) (auto simp: positions_def image_iff)

lemma wall_skipped:
  "\<not> skipped wall_center (Vec3u 3 3 0)" "\<not> skipped wall_corner0 (Vec3u 3 3 0)"
  by (simp_all add: skipped_def normal_def cross_def vsub_def normalize3_def length3_def dot_def
        wall_center_def wall_corner0_def distance_point_plane_def smul_def vertex_def
        distanceLimit_def Let_def wall_sqrt)

lemma wall_contributions:
  "contribution wall wall_center (Vec3u 3 3 0) = \<lparr>weight = 55, wvalue = Vec3 0 0 1\<rparr>"
  "contribution wall wall_corner0 (Vec3u 3 3 0) = \<lparr>weight = 110, wvalue = Vec3 1 0 0\<rparr>"
  by (simp_all add: contribution_def voxelizeVoxel_def hiLoop_wall_center hiLoop_wall_corner
        mix_weighted_def Let_def wall_def area_wall two_tone_def textureCenter_def
        wall_center_fragment_def wall_corner_fragment0_def wall_corner_fragment1_def
        vadd2_def smul2_def smul_def vadd_def)

lemma wall_contributions_at:
  "contributions_at wall (Vec3u 3 3 0)
     = [\<lparr>weight = 55, wvalue = Vec3 0 0 1\<rparr>, \<lparr>weight = 110, wvalue = Vec3 1 0 0\<rparr>]"
  by (simp add: contributions_at_def contributes_def wall_def [THEN arg_cong, of geometry]
        subdivide_wall in_positions wall_boxes wall_skipped wall_contributions)

lemma insert_blend_some:
  "foldl (\<lambda>m c. insertColor BLEND m pos c) (m0(pos \<mapsto> x)) cs pos = Some (foldl mix_weighted x cs)"
  by (induction cs arbitrary: m0 x) (simp_all add: insertColor_def)

lemma configured_entry_blend:
  "configured_entry BLEND inputTriangle pos = snd (voxelize inputTriangle buffers out) pos"
proof -
  have "foldl (\<lambda>m c. insertColor BLEND m pos c) Map.empty cs pos = blend_all cs" for cs
  proof (cases cs)
    case Nil
    then show ?thesis by simp
  next
    case (Cons c cs')
    then show ?thesis
      using insert_blend_some [of pos Map.empty c cs'] by (simp add: insertColor_def)
  qed
  then show ?thesis by (simp add: configured_entry_def voxelize_pointwise)
qed

text \<open>
  Claim C3 as stated fails. The wall is subdivided into four pieces, and the center piece and
  the corner piece at vertex 0 both reach into the voxel \<open>(3, 3, 0)\<close>: the center piece
  contributes weight 55 and blue, the corner piece weight 110 and red. \<open>voxelize\<close> starts
  from the cleared map and blends the two, so the entry has weight 165 and the color
  \<open>(2/3, 0, 1/3)\<close>. Inserted under the MAX strategy the second contribution would replace
  the first, and the entry would have weight 110 and be red.
\<close>

theorem configured_strategy_counterexample:
  "subdivideLargeVolumeTriangles (geometry wall) []
     = [wall_center, wall_corner0, wall_corner1, wall_corner2]
   \<and> contributions_at wall (Vec3u 3 3 0)
     = [\<lparr>weight = 55, wvalue = Vec3 0 0 1\<rparr>, \<lparr>weight = 110, wvalue = Vec3 1 0 0\<rparr>]
   \<and> snd (voxelize wall ([], [], []) Map.empty) (Vec3u 3 3 0)
     = Some \<lparr>weight = 165, wvalue = Vec3 (2 / 3) 0 (1 / 3)\<rparr>
   \<and> configured_entry MAXIMUM wall (Vec3u 3 3 0) = Some \<lparr>weight = 110, wvalue = Vec3 1 0 0\<rparr>"
proof -
  have "snd (voxelize wall ([], [], []) Map.empty) (Vec3u 3 3 0)
        = Some \<lparr>weight = 165, wvalue = Vec3 (2 / 3) 0 (1 / 3)\<rparr>"
    by (simp add: voxelize_pointwise wall_contributions_at mix_weighted_def Let_def smul_def vadd_def)
  moreover have "configured_entry MAXIMUM wall (Vec3u 3 3 0)
        = Some \<lparr>weight = 110, wvalue = Vec3 1 0 0\<rparr>"
    by (simp add: configured_entry_def wall_contributions_at insertColor_def max_weighted_def)
  ultimately show ?thesis
    using subdivide_wall wall_contributions_at by (simp add: wall_def)
qed

section \<open>Properties of the command queue\<close>

lemma sum_busy_le: "sum_list (map busy ws) \<le> length ws"
  by (induction ws) (auto simp: busy_def split: WorkerPhase.splits)

lemma sum_busy_update:
  "i < length ws \<Longrightarrow>
   sum_list (map busy (ws[i := w])) + busy (ws ! i) = sum_list (map busy ws) + busy w"
proof (induction ws arbitrary: i)
  case Nil
  then show ?case by simp
next
  case (Cons a ws)
  then show ?case by (cases i) auto
qed

lemma unfinished_bound:
  "length (buffer s) \<le> capacity \<Longrightarrow> unfinished s \<le> length (workers s) + 129"
  using sum_busy_le [of "workers s"]
  by (simp add: unfinished_def capacity_def split: option.split)

lemma decrement_positive:
  assumes "0 < c" "c < 2 ^ 64"
  shows "decrement c = c - 1"
proof -
  obtain d where d: "c = Suc d" using assms(1) by (cases c) simp_all
  have "(d + 2 ^ 64) mod 2 ^ 64 = d mod (2 ^ 64 :: nat)" by (rule mod_add_self2)
  moreover have "d < 2 ^ 64" using assms(2) d by simp
  ultimately show ?thesis by (simp add: decrement_def d)
qed

lemma invariant_initial: "invariant n (initial n)"
  by (simp add: invariant_def initial_def unfinished_def capacity_def busy_def)

lemma invariant_step:
  assumes "invariant n s" "step s s'" "n < 2 ^ 32"
  shows "invariant n s'"
  using assms(2)
proof cases
  case (issue_count c)
  have "unfinished s \<le> n + 128"
    using assms(1) issue_count(2) sum_busy_le [of "workers s"]
    by (simp add: invariant_def unfinished_def capacity_def)
  then have "unfinished s + 1 < 2 ^ 64" using assms(3) by simp
  then show ?thesis using assms(1) issue_count
    by (simp add: invariant_def unfinished_def increment_def)
next
  case (issue_push c)
  then show ?thesis using assms(1)
    by (simp add: invariant_def unfinished_def)
next
  case (receive i c rest)
  then show ?thesis using assms(1) sum_busy_update [of i "workers s" "Running c"]
    by (simp add: invariant_def unfinished_def busy_def)
next
  case (run i c)
  then show ?thesis using assms(1) sum_busy_update [of i "workers s" "Completing c"]
    by (simp add: invariant_def unfinished_def busy_def)
next
  case (complete i c)
  let ?w = "after_complete c"
  have "busy ?w = 0" by (cases c) (simp_all add: busy_def)
  then have u: "sum_list (map busy ((workers s)[i := ?w])) + 1 = sum_list (map busy (workers s))"
    using sum_busy_update [of i "workers s" ?w] complete(2,3) by (simp add: busy_def)
  have b: "unfinished s \<le> n + 129"
    using assms(1) unfinished_bound [of s] by (simp add: invariant_def)
  have pos: "0 < unfinished s" using u by (simp add: unfinished_def)
  have "unfinished s < 2 ^ 64" using b assms(3) by simp
  then have "decrement (unfinished s) = unfinished s - 1"
    using pos by (rule decrement_positive [rotated])
  then show ?thesis using assms(1) complete u pos
    by (simp add: invariant_def unfinished_def split: option.split)
qed

lemma reachable_invariant: "reachable n s \<Longrightarrow> n < 2 ^ 32 \<Longrightarrow> invariant n s"
  by (induction rule: reachable.induct) (auto intro: invariant_initial invariant_step)

lemma busy_zero: "sum_list (map busy ws) = 0 \<Longrightarrow> \<forall>w \<in> set ws. w = Receiving \<or> w = Exited"
  by (induction ws) (auto simp: busy_def split: WorkerPhase.splits)

lemma reachable_popped: "reachable 1 popped_state"
proof -
  let ?s1 = "\<lparr>buffer = [], commandCounter = 1, issuing = Some EXIT,
              workers = [Receiving], issued = 1, finished = 0\<rparr>"
  let ?s2 = "\<lparr>buffer = [EXIT], commandCounter = 1, issuing = None,
              workers = [Receiving], issued = 1, finished = 0\<rparr>"
  have "step (initial 1) ?s1"
    using issue_count [of "initial 1" EXIT] by (simp add: initial_def increment_def)
  then have r1: "reachable 1 ?s1" using start [of 1] by (rule next_state [rotated])
  have "step ?s1 ?s2" using issue_push [of ?s1 EXIT] by (simp add: capacity_def)
  then have r2: "reachable 1 ?s2" using r1 by (rule next_state [rotated])
  have "step ?s2 popped_state"
    using receive [of 0 ?s2 EXIT "[]"] by (simp add: popped_state_def)
  then show ?thesis using r2 by (rule next_state [rotated])
qed

lemma reachable_final: "reachable 1 final_state"
proof -
  let ?s4 = "\<lparr>buffer = [], commandCounter = 1, issuing = None,
              workers = [Completing EXIT], issued = 1, finished = 0\<rparr>"
  have "step popped_state ?s4" using run [of 0 popped_state EXIT] by (simp add: popped_state_def)
  then have r4: "reachable 1 ?s4" using reachable_popped by (rule next_state [rotated])
  have "step ?s4 final_state"
    using complete [of 0 ?s4 EXIT] by (simp add: final_state_def decrement_def)
  then show ?thesis using r4 by (rule next_state [rotated])
qed

text \<open>
  Claim C9. In every state that the main thread and the workers can reach (with fewer than
  \<open>2 ^ 32\<close> workers, the range of \<open>hardware_concurrency\<close>), the completion counter equals
  the number of commands issued minus the number of commands finished, and it equals the
  number of commands that are about to be pushed, wait in the buffer, or are held by a worker
  that has popped them and has not yet called \<open>complete\<close>. So when the counter is 0, which is
  what \<open>waitForCompletion\<close> waits for, the main thread is not inside \<open>issue\<close>, the buffer is
  empty, no worker holds a command, and every issued command is finished.
\<close>

theorem completion_counter_discipline:
  assumes "reachable n s" "n < 2 ^ 32"
  shows "commandCounter s = issued s - finished s \<and> finished s \<le> issued s
         \<and> commandCounter s = unfinished s
         \<and> (commandCounter s = 0 \<longrightarrow>
              issuing s = None \<and> buffer s = []
              \<and> (\<forall>w \<in> set (workers s). w = Receiving \<or> w = Exited)
              \<and> finished s = issued s)"
proof -
  have inv: "invariant n s" using assms by (rule reachable_invariant)
  then have c: "commandCounter s = unfinished s" and i: "issued s = finished s + unfinished s"
    by (simp_all add: invariant_def)
  have "unfinished s = 0 \<Longrightarrow> issuing s = None \<and> buffer s = []
          \<and> (\<forall>w \<in> set (workers s). w = Receiving \<or> w = Exited)"
    using busy_zero [of "workers s"] by (auto simp: unfinished_def split: option.splits)
  then show ?thesis using c i by auto
qed

theorem completion_counter_discipline_witness:
  "reachable 1 popped_state \<and> buffer popped_state = [] \<and> commandCounter popped_state = 1
   \<and> unfinished popped_state = 1
   \<and> reachable 1 final_state \<and> commandCounter final_state = 0
   \<and> finished final_state = issued final_state \<and> workers final_state = [Exited]"
  using completion_counter_discipline [OF reachable_popped]
    completion_counter_discipline [OF reachable_final] reachable_popped reachable_final
  by (simp add: popped_state_def final_state_def)

section \<open>Properties of the pipeline driver\<close>

lemma writeVoxels_fails:
  "fst (writeVoxels canWrite k result acc) = (\<forall>j < length result. canWrite (k + j))"
proof (induction result arbitrary: k acc)
  case Nil
  then show ?case by simp
next
  case (Cons v result)
  obtain pos color where v: "v = (pos, color)" by (cases v)
  have "(\<forall>j < Suc (length result). canWrite (k + j))
        = (canWrite k \<and> (\<forall>j < length result. canWrite (Suc k + j)))"
    by (auto simp: less_Suc_eq_0_disj)
  then show ?case using Cons.IH [of "k + 1"] by (simp add: v)
qed

lemma no_workers_idle: "reachable n s \<Longrightarrow> n = 0 \<Longrightarrow> workers s = [] \<and> finished s = 0"
proof (induction rule: reachable.induct)
  case (start n)
  then show ?case by (simp add: initial_def)
next
  case (next_state n s s')
  then have "workers s = [] \<and> finished s = 0" by simp
  with next_state(2) show ?case by cases simp_all
qed

text \<open>
  Without a worker no command is ever finished: in every state the main thread can reach on
  its own the counter equals the number of commands issued, so once a command has been issued
  the counter is never 0 again and \<open>waitForCompletion\<close> does not return. This is the case in
  which the model of the driver has no outcome.
\<close>

lemma no_workers_never_complete:
  assumes "reachable 0 s" "0 < issued s"
  shows "commandCounter s \<noteq> 0"
proof -
  have "invariant 0 s" using assms(1) by (rule reachable_invariant) simp
  then have "commandCounter s = unfinished s" "issued s = finished s + unfinished s"
    by (simp_all add: invariant_def)
  then show ?thesis using no_workers_idle [OF assms(1)] assms(2) by simp
qed

text \<open>
  Claim C5, amended. The driver does not look at the resolution or at the permutation. For
  every configuration, valid or not: a stream without vertices makes it flush the sink once,
  spawn no worker and return success; any other stream makes it spawn as many workers as the
  hardware reports, and then it returns failure exactly when the sink answers that it cannot
  write before one of the voxels of the result. The only run that does not return is the one
  with a hardware concurrency of 0 and a stream that has vertices and hands out a triangle,
  where the driver waits for a command that no thread will run.
\<close>

theorem driver_performs_no_validation:
  "(voxelize_file hw pipeline args stream canWrite = None
      \<longleftrightarrow> vertexCount stream \<noteq> 0 \<and> hw = 0 \<and> triangles stream \<noteq> [])
   \<and> (\<forall>outcome. voxelize_file hw pipeline args stream canWrite = Some outcome \<longrightarrow>
          threadsSpawned outcome = (if vertexCount stream = 0 then 0 else hw)
          \<and> flushes outcome = (if vertexCount stream = 0 then 1 else 0)
          \<and> returned outcome
              = (vertexCount stream = 0 \<or> (\<forall>j < length (pipeline args stream hw). canWrite j)))"
  using writeVoxels_fails [of canWrite 0 "pipeline args stream hw" "[]"]
  by (auto simp: voxelize_file_def Let_def)

theorem driver_performs_no_validation_witness:
  "(\<exists>outcome. voxelize_file 2 one_voxel_pipeline invalid_args one_triangle_stream (\<lambda>k. False)
        = Some outcome
      \<and> threadsSpawned outcome = 2 \<and> flushes outcome = 0 \<and> returned outcome = False)
   \<and> (\<exists>outcome. voxelize_file 2 one_voxel_pipeline invalid_args
          \<lparr>vertexCount = 0, triangles = []\<rparr> (\<lambda>k. False) = Some outcome
      \<and> threadsSpawned outcome = 0 \<and> flushes outcome = 1 \<and> returned outcome = True)
   \<and> voxelize_file 0 one_voxel_pipeline invalid_args one_triangle_stream (\<lambda>k. False) = None"
proof -
  let ?a = "voxelize_file 2 one_voxel_pipeline invalid_args one_triangle_stream (\<lambda>k. False)"
  let ?b = "voxelize_file 2 one_voxel_pipeline invalid_args
              \<lparr>vertexCount = 0, triangles = []\<rparr> (\<lambda>k. False)"
  note a = driver_performs_no_validation
             [of 2 one_voxel_pipeline invalid_args one_triangle_stream "\<lambda>k. False"]
  note b = driver_performs_no_validation
             [of 2 one_voxel_pipeline invalid_args "\<lparr>vertexCount = 0, triangles = []\<rparr>" "\<lambda>k. False"]
  note c = driver_performs_no_validation
             [of 0 one_voxel_pipeline invalid_args one_triangle_stream "\<lambda>k. False"]
  have "?a \<noteq> None" using a by simp
  then obtain x where x: "?a = Some x" by (cases ?a) simp_all
  have "?b \<noteq> None" using b by simp
  then obtain y where y: "?b = Some y" by (cases ?b) simp_all
  have "threadsSpawned x = 2 \<and> flushes x = 0 \<and> returned x = False"
    using a x by (simp add: one_triangle_stream_def one_voxel_pipeline_def)
  moreover have "threadsSpawned y = 0 \<and> flushes y = 1 \<and> returned y = True"
    using b y by simp
  moreover have "voxelize_file 0 one_voxel_pipeline invalid_args one_triangle_stream (\<lambda>k. False) = None"
    using c by (simp add: one_triangle_stream_def)
  ultimately show ?thesis using x y by simp
qed

text \<open>
  Claim C5 as stated fails. With resolution 0 and a permutation field that is no permutation,
  a mesh of one triangle, four hardware threads and a sink that can always write, the driver
  spawns its four workers and returns success.
\<close>

theorem invalid_configuration_counterexample:
  "\<not> valid_args invalid_args \<and> resolution invalid_args = 0
   \<and> voxelize_file 4 one_voxel_pipeline invalid_args one_triangle_stream (\<lambda>k. True)
       = Some \<lparr>returned = True, flushes = 0, threadsSpawned = 4,
                voxelsWritten = [(Vec3u 0 0 0, Vec3 1 0 0)]\<rparr>"
  by (simp add: valid_args_def invalid_args_def voxelize_file_def one_triangle_stream_def
        one_voxel_pipeline_def Let_def)

end
